theory Spec2Isabelle
  imports
    Main
    "HOL-Library.Char_ord"
    "HOL-Library.List_Lexorder"
    "HOL-Library.Product_Lexorder"
begin

section \<open>The database the two scripts read\<close>

text \<open>
  Both scripts only read. The database file is therefore a fixed value during a run: the
  rows of the schema catalog (\<open>sqlite_master\<close>), each with the declared columns of
  the object and, for a table or view, its rows in scan order (the order in which a
  \<open>SELECT\<close> without \<open>ORDER BY\<close> walks the table). Values are of the storage
  classes NULL, INTEGER and TEXT; REAL and BLOB values are left out of the model.
\<close>

datatype val = Null | IntV int | TextV string

record column =
  cname :: string
  ctype :: string
  notnull :: int
  dflt_value :: val
  pk :: int

record object =
  obj_type :: string
  obj_name :: string
  obj_columns :: "column list"
  obj_rows :: "val list list"

type_synonym database = "object list"

text \<open>A row that is shorter than the column list reads as NULL in the missing cells.\<close>

definition cell :: "val list \<Rightarrow> nat \<Rightarrow> val" where
  "cell r i = (if i < length r then r ! i else Null)"

subsection \<open>Names\<close>

text \<open>
  Table and column names compare without regard to ASCII case. A text in a table position
  of a statement denotes a table only when it is one bare identifier token (a letter,
  underscore or non-ASCII byte, followed by such characters, digits or \<open>$\<close>); the
  model reads every other text as a syntax error. Reserved words, quoted forms, aliases
  and numbers are not modelled: the texts the theorems below depend on are the fixed names
  in the source and names with a space or a hyphen inside.
\<close>

definition lower :: "char \<Rightarrow> char" where
  "lower c = (if CHR ''A'' \<le> c \<and> c \<le> CHR ''Z'' then char_of (of_char c + (32::nat)) else c)"

definition same_name :: "string \<Rightarrow> string \<Rightarrow> bool" where
  "same_name a b = (map lower a = map lower b)"

definition ident_start :: "char \<Rightarrow> bool" where
  "ident_start c =
     ((CHR ''a'' \<le> lower c \<and> lower c \<le> CHR ''z'') \<or> c = CHR ''_'' \<or> (128::nat) \<le> of_char c)"

definition ident_char :: "char \<Rightarrow> bool" where
  "ident_char c = (ident_start c \<or> (CHR ''0'' \<le> c \<and> c \<le> CHR ''9'') \<or> c = CHR ''$'')"

definition bare_identifier :: "string \<Rightarrow> bool" where
  "bare_identifier s = (case s of [] \<Rightarrow> False | c # cs \<Rightarrow> ident_start c \<and> list_all ident_char cs)"

definition find_object :: "database \<Rightarrow> string \<Rightarrow> object option" where
  "find_object db t =
     find (\<lambda>ob. (obj_type ob = ''table'' \<or> obj_type ob = ''view'') \<and> same_name (obj_name ob) t) db"

fun find_column :: "column list \<Rightarrow> string \<Rightarrow> nat \<Rightarrow> (nat \<times> column) option" where
  "find_column [] c i = None"
| "find_column (x # xs) c i = (if same_name (cname x) c then Some (i, x) else find_column xs c (Suc i))"

subsection \<open>Errors\<close>

text \<open>
  The first three are the driver's \<open>sqlite3.OperationalError\<close> with its message; the
  last two are Python's own \<open>TypeError\<close> and \<open>IndexError\<close>.
\<close>

datatype error =
  Syntax_error string
  | No_such_table string
  | No_such_column string
  | Type_error
  | Index_error

definition bind_err :: "error + 'a \<Rightarrow> ('a \<Rightarrow> error + 'b) \<Rightarrow> error + 'b" where
  "bind_err r f = (case r of Inl e \<Rightarrow> Inl e | Inr x \<Rightarrow> f x)"

definition from_table :: "database \<Rightarrow> string \<Rightarrow> error + object" where
  "from_table db t =
     (if \<not> bare_identifier t then Inl (Syntax_error t)
      else case find_object db t of None \<Rightarrow> Inl (No_such_table t) | Some ob \<Rightarrow> Inr ob)"

fun resolve_columns :: "column list \<Rightarrow> string list \<Rightarrow> error + (nat \<times> column) list" where
  "resolve_columns cols [] = Inr []"
| "resolve_columns cols (c # cs) =
     (case find_column cols c 0 of
        None \<Rightarrow> Inl (No_such_column c)
      | Some ic \<Rightarrow> bind_err (resolve_columns cols cs) (\<lambda>ics. Inr (ic # ics)))"

subsection \<open>The statements of the source and what they return\<close>

text \<open>
  \<open>WHERE\<close> conditions are three-valued: \<open>None\<close> is SQL's NULL truth value, and a row
  is kept only when the condition is true.
\<close>

datatype cond =
  Is_null string
  | Eq_text string string
  | Or cond cond

fun cond_columns :: "cond \<Rightarrow> string list" where
  "cond_columns (Is_null c) = [c]"
| "cond_columns (Eq_text c s) = [c]"
| "cond_columns (Or a b) = cond_columns a @ cond_columns b"

definition column_value :: "column list \<Rightarrow> val list \<Rightarrow> string \<Rightarrow> val" where
  "column_value cols r c = (case find_column cols c 0 of None \<Rightarrow> Null | Some (i, _) \<Rightarrow> cell r i)"

fun truth :: "column list \<Rightarrow> val list \<Rightarrow> cond \<Rightarrow> bool option" where
  "truth cols r (Is_null c) = Some (column_value cols r c = Null)"
| "truth cols r (Eq_text c s) =
     (if column_value cols r c = Null then None else Some (column_value cols r c = TextV s))"
| "truth cols r (Or a b) =
     (case (truth cols r a, truth cols r b) of
        (Some True, _) \<Rightarrow> Some True
      | (_, Some True) \<Rightarrow> Some True
      | (Some False, Some False) \<Rightarrow> Some False
      | _ \<Rightarrow> None)"

datatype stmt =
  Count_rows string
  | Count_where string cond
  | Select_limit "string list" string nat
  | Select_star_limit string nat
  | Group_count "string list" string
  | Table_info string
  | Master_tables

text \<open>The SQL text of a statement, as the source writes it.\<close>

fun commas :: "string list \<Rightarrow> string" where
  "commas [] = []"
| "commas [c] = c"
| "commas (c # cs) = c @ '', '' @ commas cs"

fun cond_sql :: "cond \<Rightarrow> string" where
  "cond_sql (Is_null c) = c @ '' IS NULL''"
| "cond_sql (Eq_text c s) = c @ '' = '' @ [CHR 0x27] @ s @ [CHR 0x27]"
| "cond_sql (Or a b) = cond_sql a @ '' OR '' @ cond_sql b"

fun nat_str :: "nat \<Rightarrow> string" where
  "nat_str n = (if n < 10 then [''0123456789'' ! n] else nat_str (n div 10) @ [''0123456789'' ! (n mod 10)])"

declare nat_str.simps [simp del]

fun sql :: "stmt \<Rightarrow> string" where
  "sql (Count_rows t) = ''SELECT COUNT(*) FROM '' @ t"
| "sql (Count_where t w) = ''SELECT COUNT(*) FROM '' @ t @ '' WHERE '' @ cond_sql w"
| "sql (Select_limit cs t n) = ''SELECT '' @ commas cs @ '' FROM '' @ t @ '' LIMIT '' @ nat_str n"
| "sql (Select_star_limit t n) = ''SELECT * FROM '' @ t @ '' LIMIT '' @ nat_str n"
| "sql (Group_count ks t) =
     ''SELECT '' @ commas ks @ '', COUNT(*) FROM '' @ t @ '' GROUP BY '' @ commas ks"
| "sql (Table_info t) = ''PRAGMA table_info('' @ t @ '')''"
| "sql Master_tables = ''SELECT name FROM sqlite_master WHERE type='' @ [CHR 0x27] @ ''table'' @ [CHR 0x27] @ '';''"

text \<open>The cursor after \<open>execute\<close>: the column names and the rows still to fetch.\<close>

record cursor =
  description :: "string list"
  pending :: "val list list"

definition count_cursor :: "nat \<Rightarrow> cursor" where
  "count_cursor n = \<lparr>description = [''COUNT(*)''], pending = [[IntV (int n)]]\<rparr>"

text \<open>
  Groups come out in the order of their keys: NULL first, then integers by value, then
  texts byte by byte.
\<close>

fun val_key :: "val \<Rightarrow> nat \<times> int \<times> string" where
  "val_key Null = (0, 0, [])"
| "val_key (IntV i) = (1, i, [])"
| "val_key (TextV s) = (2, 0, s)"

definition grouped :: "val list list \<Rightarrow> val list list" where
  "grouped keys =
     map (\<lambda>k. k @ [IntV (int (count_list keys k))]) (sort_key (map val_key) (remdups keys))"

definition group_rows :: "nat list \<Rightarrow> val list list \<Rightarrow> val list list" where
  "group_rows idx rs = grouped (map (\<lambda>r. map (cell r) idx) rs)"

definition info_row :: "nat \<times> column \<Rightarrow> val list" where
  "info_row ic =
     [IntV (int (fst ic)), TextV (cname (snd ic)), TextV (ctype (snd ic)),
      IntV (notnull (snd ic)), dflt_value (snd ic), IntV (pk (snd ic))]"

fun engine :: "database \<Rightarrow> stmt \<Rightarrow> error + cursor" where
  "engine db (Count_rows t) =
     bind_err (from_table db t) (\<lambda>ob. Inr (count_cursor (length (obj_rows ob))))"
| "engine db (Count_where t w) =
     bind_err (from_table db t) (\<lambda>ob.
     bind_err (resolve_columns (obj_columns ob) (cond_columns w)) (\<lambda>_.
     Inr (count_cursor (length (filter (\<lambda>r. truth (obj_columns ob) r w = Some True) (obj_rows ob))))))"
| "engine db (Select_limit cs t n) =
     bind_err (from_table db t) (\<lambda>ob.
     bind_err (resolve_columns (obj_columns ob) cs) (\<lambda>ics.
     Inr \<lparr>description = map (\<lambda>ic. cname (snd ic)) ics,
          pending = map (\<lambda>r. map (\<lambda>ic. cell r (fst ic)) ics) (take n (obj_rows ob))\<rparr>))"
| "engine db (Select_star_limit t n) =
     bind_err (from_table db t) (\<lambda>ob.
     Inr \<lparr>description = map cname (obj_columns ob),
          pending = map (\<lambda>r. map (cell r) [0..<length (obj_columns ob)]) (take n (obj_rows ob))\<rparr>)"
| "engine db (Group_count ks t) =
     bind_err (from_table db t) (\<lambda>ob.
     bind_err (resolve_columns (obj_columns ob) ks) (\<lambda>ics.
     Inr \<lparr>description = map (\<lambda>ic. cname (snd ic)) ics @ [''COUNT(*)''],
          pending = group_rows (map fst ics) (obj_rows ob)\<rparr>))"
| "engine db (Table_info t) =
     (if \<not> bare_identifier t then Inl (Syntax_error t)
      else Inr \<lparr>description = [''cid'', ''name'', ''type'', ''notnull'', ''dflt_value'', ''pk''],
               pending = (case find_object db t of
                            None \<Rightarrow> []
                          | Some ob \<Rightarrow> map info_row (enumerate 0 (obj_columns ob)))\<rparr>)"
| "engine db Master_tables =
     Inr \<lparr>description = [''name''],
          pending = map (\<lambda>ob. [TextV (obj_name ob)]) (filter (\<lambda>ob. obj_type ob = ''table'') db)\<rparr>"

declare engine.simps [simp del]

section \<open>Running a script\<close>

text \<open>
  A run is the sequence of what the script did to the outside, in order, together with how
  it ended: \<open>Inr\<close> when control reached the end, \<open>Inl e\<close> when the exception
  \<open>e\<close> was raised and nothing caught it. A raised exception ends the run on the
  spot, since neither script has a handler. The run is that of a script on a database it
  could open: \<open>sqlite3.connect\<close> and \<open>conn.cursor()\<close> succeed, and what can fail
  afterwards is a statement or a Python operation on its result.
\<close>

datatype event = Connect | Execute stmt | Print string | Close

type_synonym 'a prog = "event list \<times> (error + 'a)"

definition ret :: "'a \<Rightarrow> 'a prog" where
  "ret x = ([], Inr x)"

definition lift :: "error + 'a \<Rightarrow> 'a prog" where
  "lift r = ([], r)"

definition bnd :: "'a prog \<Rightarrow> ('a \<Rightarrow> 'b prog) \<Rightarrow> 'b prog" where
  "bnd m f =
     (case m of
        (tr, Inl e) \<Rightarrow> (tr, Inl e)
      | (tr, Inr x) \<Rightarrow> (case f x of (tr', r) \<Rightarrow> (tr @ tr', r)))"

fun for_each :: "'a list \<Rightarrow> ('a \<Rightarrow> unit prog) \<Rightarrow> unit prog" where
  "for_each [] f = ret ()"
| "for_each (x # xs) f = bnd (f x) (\<lambda>_. for_each xs f)"

definition connect :: "unit prog" where
  "connect = ([Connect], Inr ())"

definition close :: "unit prog" where
  "close = ([Close], Inr ())"

definition print :: "string \<Rightarrow> unit prog" where
  "print s = ([Print s], Inr ())"

definition execute :: "database \<Rightarrow> stmt \<Rightarrow> cursor prog" where
  "execute db q = ([Execute q], engine db q)"

subsection \<open>The Python operations the scripts use\<close>

definition fetchall :: "cursor \<Rightarrow> val list list" where
  "fetchall cur = pending cur"

definition fetchone :: "cursor \<Rightarrow> val list option" where
  "fetchone cur = (case pending cur of [] \<Rightarrow> None | r # _ \<Rightarrow> Some r)"

text \<open>\<open>row[i]\<close> on a tuple, and on the \<open>None\<close> that \<open>fetchone\<close> gives without a row.\<close>

definition item :: "val list \<Rightarrow> nat \<Rightarrow> error + val" where
  "item r i = (if i < length r then Inr (r ! i) else Inl Index_error)"

definition item_opt :: "val list option \<Rightarrow> nat \<Rightarrow> error + val" where
  "item_opt r i = (case r of None \<Rightarrow> Inl Type_error | Some row \<Rightarrow> item row i)"

text \<open>\<open>v > 0\<close>: defined between integers only.\<close>

fun greater_0 :: "val \<Rightarrow> error + bool" where
  "greater_0 (IntV n) = Inr (0 < n)"
| "greater_0 _ = Inl Type_error"

definition int_str :: "int \<Rightarrow> string" where
  "int_str i = (if i < 0 then ''-'' @ nat_str (nat (- i)) else nat_str (nat i))"

text \<open>A value inside an f-string.\<close>

fun py_str :: "val \<Rightarrow> string" where
  "py_str Null = ''None''"
| "py_str (IntV i) = int_str i"
| "py_str (TextV s) = s"

subsection \<open>analyzeDatabase.py\<close>

definition separator :: string where
  "separator = ''\<newline>'' @ replicate 50 (CHR ''='') @ ''\<newline>''"

text \<open>The lines the report prints for a row.\<close>

definition sample_file_line :: "val \<Rightarrow> val \<Rightarrow> string" where
  "sample_file_line r0 r1 = ''  - '' @ py_str r0 @ '' ['' @ py_str r1 @ '']''"

definition group_line :: "val \<Rightarrow> val \<Rightarrow> string" where
  "group_line r0 r1 = ''  - '' @ py_str r0 @ '': '' @ py_str r1"

definition sample_poi_line :: "val \<Rightarrow> val \<Rightarrow> val \<Rightarrow> val \<Rightarrow> val \<Rightarrow> string" where
  "sample_poi_line r0 r1 r2 r3 r4 =
     ''  - '' @ py_str r0 @ '' | '' @ py_str r1 @ '' ('' @ py_str r2 @ '') | Lines ''
       @ py_str r3 @ ''-'' @ py_str r4"

definition outbox_line :: "val \<Rightarrow> val \<Rightarrow> val \<Rightarrow> string" where
  "outbox_line r0 r1 r2 = ''  - '' @ py_str r0 @ '' [processed='' @ py_str r1 @ '']: '' @ py_str r2"

definition field_line :: "string \<Rightarrow> val \<Rightarrow> string" where
  "field_line col v = ''  '' @ col @ '': '' @ py_str v"

definition check_files :: "database \<Rightarrow> unit prog" where
  "check_files db =
     bnd (execute db (Count_rows ''files'')) (\<lambda>cur.
     bnd (lift (item_opt (fetchone cur) 0)) (\<lambda>file_count.
     bnd (print (''Files processed: '' @ py_str file_count)) (\<lambda>_.
     bnd (lift (greater_0 file_count)) (\<lambda>positive.
     if positive then
       bnd (execute db (Select_limit [''file_path'', ''status''] ''files'' 5)) (\<lambda>cur.
       bnd (print ''Sample files:'') (\<lambda>_.
       for_each (fetchall cur) (\<lambda>row.
         bnd (lift (item row 0)) (\<lambda>r0.
         bnd (lift (item row 1)) (\<lambda>r1.
         print (sample_file_line r0 r1))))))
     else ret ()))))"

definition check_pois :: "database \<Rightarrow> val prog" where
  "check_pois db =
     bnd (execute db (Count_rows ''pois'')) (\<lambda>cur.
     bnd (lift (item_opt (fetchone cur) 0)) (\<lambda>poi_count.
     bnd (print (''POIs extracted: '' @ py_str poi_count)) (\<lambda>_.
     bnd (lift (greater_0 poi_count)) (\<lambda>positive.
     bnd (if positive then
       bnd (execute db (Group_count [''type''] ''pois'')) (\<lambda>cur.
       bnd (print ''POI types:'') (\<lambda>_.
       bnd (for_each (fetchall cur) (\<lambda>row.
         bnd (lift (item row 0)) (\<lambda>r0.
         bnd (lift (item row 1)) (\<lambda>r1.
         print (group_line r0 r1))))) (\<lambda>_.
       bnd (execute db
              (Select_limit [''file_path'', ''name'', ''type'', ''start_line'', ''end_line''] ''pois'' 5)) (\<lambda>cur.
       bnd (print ''\<newline>Sample POIs:'') (\<lambda>_.
       for_each (fetchall cur) (\<lambda>row.
         bnd (lift (item row 0)) (\<lambda>r0.
         bnd (lift (item row 1)) (\<lambda>r1.
         bnd (lift (item row 2)) (\<lambda>r2.
         bnd (lift (item row 3)) (\<lambda>r3.
         bnd (lift (item row 4)) (\<lambda>r4.
         print (sample_poi_line r0 r1 r2 r3 r4))))))))))))
     else ret ()) (\<lambda>_.
     ret poi_count)))))"

definition check_relationships :: "database \<Rightarrow> unit prog" where
  "check_relationships db =
     bnd (execute db (Count_rows ''relationships'')) (\<lambda>cur.
     bnd (lift (item_opt (fetchone cur) 0)) (\<lambda>rel_count.
     bnd (print (''Relationships discovered: '' @ py_str rel_count)) (\<lambda>_.
     bnd (lift (greater_0 rel_count)) (\<lambda>positive.
     if positive then
       bnd (execute db (Group_count [''type''] ''relationships'')) (\<lambda>cur.
       bnd (print ''Relationship types:'') (\<lambda>_.
       bnd (for_each (fetchall cur) (\<lambda>row.
         bnd (lift (item row 0)) (\<lambda>r0.
         bnd (lift (item row 1)) (\<lambda>r1.
         print (group_line r0 r1))))) (\<lambda>_.
       bnd (execute db (Group_count [''status''] ''relationships'')) (\<lambda>cur.
       bnd (print ''\<newline>Relationship statuses:'') (\<lambda>_.
       bnd (for_each (fetchall cur) (\<lambda>row.
         bnd (lift (item row 0)) (\<lambda>r0.
         bnd (lift (item row 1)) (\<lambda>r1.
         print (group_line r0 r1))))) (\<lambda>_.
       bnd (execute db (Count_where ''relationships'' (Eq_text ''status'' ''validated''))) (\<lambda>cur.
       bnd (lift (item_opt (fetchone cur) 0)) (\<lambda>validated_count.
       print (''\<newline>Validated relationships: '' @ py_str validated_count)))))))))
     else ret ()))))"

definition check_evidence :: "database \<Rightarrow> unit prog" where
  "check_evidence db =
     bnd (execute db (Count_rows ''relationship_evidence'')) (\<lambda>cur.
     bnd (lift (item_opt (fetchone cur) 0)) (\<lambda>evidence_count.
     print (''Relationship evidence entries: '' @ py_str evidence_count)))"

definition check_outbox :: "database \<Rightarrow> unit prog" where
  "check_outbox db =
     bnd (execute db (Count_rows ''transactional_outbox'')) (\<lambda>cur.
     bnd (lift (item_opt (fetchone cur) 0)) (\<lambda>outbox_count.
     bnd (print (''Transactional outbox entries: '' @ py_str outbox_count)) (\<lambda>_.
     bnd (lift (greater_0 outbox_count)) (\<lambda>positive.
     if positive then
       bnd (execute db (Group_count [''event_type'', ''processed''] ''transactional_outbox'')) (\<lambda>cur.
       bnd (print ''Outbox status:'') (\<lambda>_.
       for_each (fetchall cur) (\<lambda>row.
         bnd (lift (item row 0)) (\<lambda>r0.
         bnd (lift (item row 1)) (\<lambda>r1.
         bnd (lift (item row 2)) (\<lambda>r2.
         print (outbox_line r0 r1 r2)))))))
     else ret ()))))"

definition empty_or_null :: "string \<Rightarrow> cond" where
  "empty_or_null c = Or (Is_null c) (Eq_text c [])"

definition check_poi_data :: "database \<Rightarrow> val \<Rightarrow> unit prog" where
  "check_poi_data db poi_count =
     bnd (lift (greater_0 poi_count)) (\<lambda>positive.
     if positive then
       bnd (execute db (Count_where ''pois'' (empty_or_null ''name''))) (\<lambda>cur.
       bnd (lift (item_opt (fetchone cur) 0)) (\<lambda>empty_names.
       bnd (execute db (Count_where ''pois'' (empty_or_null ''type''))) (\<lambda>cur.
       bnd (lift (item_opt (fetchone cur) 0)) (\<lambda>empty_types.
       bnd (print (''POIs with empty names: '' @ py_str empty_names)) (\<lambda>_.
       bnd (print (''POIs with empty types: '' @ py_str empty_types)) (\<lambda>_.
       bnd (execute db (Select_star_limit ''pois'' 1)) (\<lambda>cur.
       case fetchone cur of
         None \<Rightarrow> ret ()
       | Some row \<Rightarrow>
           if row = [] then ret ()
           else
             bnd (print ''\<newline>Sample POI full data:'') (\<lambda>_.
             for_each (enumerate 0 (description cur)) (\<lambda>icol.
               bnd (lift (item row (fst icol))) (\<lambda>v.
               print (field_line (snd icol) v)))))))))))
     else ret ())"

definition analyze_database :: "database \<Rightarrow> unit prog" where
  "analyze_database db =
     bnd connect (\<lambda>_.
     bnd (print ''=== DATABASE ANALYSIS ===\<newline>'') (\<lambda>_.
     bnd (check_files db) (\<lambda>_.
     bnd (print separator) (\<lambda>_.
     bnd (check_pois db) (\<lambda>poi_count.
     bnd (print separator) (\<lambda>_.
     bnd (check_relationships db) (\<lambda>_.
     bnd (print separator) (\<lambda>_.
     bnd (check_evidence db) (\<lambda>_.
     bnd (check_outbox db) (\<lambda>_.
     bnd (print separator) (\<lambda>_.
     bnd (check_poi_data db poi_count) (\<lambda>_.
     close))))))))))))"

subsection \<open>checkTables.py\<close>

definition show_structure :: "database \<Rightarrow> val list \<Rightarrow> unit prog" where
  "show_structure db table =
     bnd (lift (item table 0)) (\<lambda>table_name.
     bnd (print (''\<newline>'' @ py_str table_name @ '' structure:'')) (\<lambda>_.
     bnd (execute db (Table_info (py_str table_name))) (\<lambda>cur.
     bnd (for_each (fetchall cur) (\<lambda>col.
       bnd (lift (item col 1)) (\<lambda>c1.
       bnd (lift (item col 2)) (\<lambda>c2.
       print (''  - '' @ py_str c1 @ '' '' @ py_str c2))))) (\<lambda>_.
     bnd (execute db (Count_rows (py_str table_name))) (\<lambda>cur.
     bnd (lift (item_opt (fetchone cur) 0)) (\<lambda>count.
     print (''  Row count: '' @ py_str count)))))))"

definition check_tables :: "database \<Rightarrow> unit prog" where
  "check_tables db =
     bnd connect (\<lambda>_.
     bnd (execute db Master_tables) (\<lambda>cur.
     bnd (print ''Tables in database:'') (\<lambda>_.
     bnd (for_each (fetchall cur) (\<lambda>table.
       bnd (lift (item table 0)) (\<lambda>t0.
       print (''  - '' @ py_str t0)))) (\<lambda>_.
     bnd (for_each (fetchall cur) (show_structure db)) (\<lambda>_.
     close)))))"

subsection \<open>What a run shows\<close>

definition executed :: "event list \<Rightarrow> stmt list" where
  "executed tr = concat (map (\<lambda>ev. case ev of Execute q \<Rightarrow> [q] | _ \<Rightarrow> []) tr)"

definition printed :: "event list \<Rightarrow> string list" where
  "printed tr = concat (map (\<lambda>ev. case ev of Print s \<Rightarrow> [s] | _ \<Rightarrow> []) tr)"

text \<open>The interpreter exits with 1 after an uncaught exception and with 0 otherwise.\<close>

definition exit_status :: "error + unit \<Rightarrow> nat" where
  "exit_status r = (case r of Inl _ \<Rightarrow> 1 | Inr _ \<Rightarrow> 0)"

subsection \<open>The tables the report names\<close>

definition named_tables :: "string list" where
  "named_tables =
     [''files'', ''pois'', ''relationships'', ''relationship_evidence'', ''transactional_outbox'']"

text \<open>
  The schema the report expects: the five tables, each with the columns the statements of
  the report name.
\<close>

definition has_columns :: "database \<Rightarrow> string \<Rightarrow> string list \<Rightarrow> bool" where
  "has_columns db t cs =
     (case from_table db t of
        Inl _ \<Rightarrow> False
      | Inr ob \<Rightarrow> list_all (\<lambda>c. find_column (obj_columns ob) c 0 \<noteq> None) cs)"

definition has_schema :: "database \<Rightarrow> bool" where
  "has_schema db =
     (has_columns db ''files'' [''file_path'', ''status''] \<and>
      has_columns db ''pois'' [''file_path'', ''name'', ''type'', ''start_line'', ''end_line''] \<and>
      has_columns db ''relationships'' [''type'', ''status''] \<and>
      has_columns db ''relationship_evidence'' [] \<and>
      has_columns db ''transactional_outbox'' [''event_type'', ''processed''])"

section \<open>Databases used as examples\<close>

definition plain_column :: "string \<Rightarrow> string \<Rightarrow> column" where
  "plain_column n t = \<lparr>cname = n, ctype = t, notnull = 0, dflt_value = Null, pk = 0\<rparr>"

definition new_table :: "string \<Rightarrow> column list \<Rightarrow> val list list \<Rightarrow> object" where
  "new_table n cs rs = \<lparr>obj_type = ''table'', obj_name = n, obj_columns = cs, obj_rows = rs\<rparr>"

definition empty_db :: database where
  "empty_db =
     [new_table ''files'' [plain_column ''file_path'' ''TEXT'', plain_column ''status'' ''TEXT''] [],
      new_table ''pois''
        [plain_column ''id'' ''INTEGER'', plain_column ''file_path'' ''TEXT'',
         plain_column ''name'' ''TEXT'', plain_column ''type'' ''TEXT'',
         plain_column ''start_line'' ''INTEGER'', plain_column ''end_line'' ''INTEGER''] [],
      new_table ''relationships''
        [plain_column ''id'' ''INTEGER'', plain_column ''type'' ''TEXT'',
         plain_column ''status'' ''TEXT''] [],
      new_table ''relationship_evidence'' [plain_column ''id'' ''INTEGER''] [],
      new_table ''transactional_outbox''
        [plain_column ''event_type'' ''TEXT'', plain_column ''processed'' ''INTEGER''] []]"

text \<open>A database with rows in every table, some of them with a missing name or type.\<close>

definition sample_files :: object where
  "sample_files =
     new_table ''files'' [plain_column ''file_path'' ''TEXT'', plain_column ''status'' ''TEXT'']
       [[TextV ''a.js'', TextV ''processed''], [TextV ''b.js'', TextV ''pending'']]"

definition sample_pois :: object where
  "sample_pois =
     new_table ''pois''
       [plain_column ''id'' ''INTEGER'', plain_column ''file_path'' ''TEXT'',
        plain_column ''name'' ''TEXT'', plain_column ''type'' ''TEXT'',
        plain_column ''start_line'' ''INTEGER'', plain_column ''end_line'' ''INTEGER'']
       [[IntV 1, TextV ''a.js'', TextV ''main'', TextV ''function'', IntV 1, IntV 9],
        [IntV 2, TextV ''a.js'', TextV [], TextV ''class'', IntV 10, IntV 20],
        [IntV 3, TextV ''a.js'', Null, TextV ''function'', IntV 21, IntV 22],
        [IntV 4, TextV ''b.js'', TextV ''f'', Null, IntV 1, IntV 2],
        [IntV 5, TextV ''b.js'', TextV ''g'', TextV ''function'', IntV 3, IntV 4],
        [IntV 6, TextV ''b.js'', TextV ''h'', TextV ''variable'', IntV 5, IntV 5]]"

definition sample_relationships :: object where
  "sample_relationships =
     new_table ''relationships''
       [plain_column ''id'' ''INTEGER'', plain_column ''type'' ''TEXT'',
        plain_column ''status'' ''TEXT'']
       [[IntV 1, TextV ''calls'', TextV ''validated''],
        [IntV 2, TextV ''imports'', Null],
        [IntV 3, TextV ''calls'', TextV ''pending'']]"

definition sample_evidence :: object where
  "sample_evidence = new_table ''relationship_evidence'' [plain_column ''id'' ''INTEGER''] [[IntV 1]]"

definition sample_outbox :: object where
  "sample_outbox =
     new_table ''transactional_outbox''
       [plain_column ''event_type'' ''TEXT'', plain_column ''processed'' ''INTEGER'']
       [[TextV ''poi-created'', IntV 0], [TextV ''poi-created'', IntV 1],
        [TextV ''poi-created'', IntV 0]]"

definition sample_db :: database where
  "sample_db = [sample_files, sample_pois, sample_relationships, sample_evidence, sample_outbox]"

text \<open>Two databases with a table whose name is not a bare identifier.\<close>

definition spaced_db :: database where
  "spaced_db = [new_table ''my table'' [plain_column ''x'' ''INT''] [[IntV 1]]]"

definition hyphen_db :: database where
  "hyphen_db =
     [new_table ''files'' [plain_column ''file_path'' ''TEXT'', plain_column ''status'' ''TEXT'']
        [[TextV ''a.js'', TextV ''processed'']],
      new_table ''order-items'' [plain_column ''id'' ''INTEGER''] [[IntV 7]]]"

section \<open>Shapes of a run\<close>

text \<open>
  \<open>orderly\<close>: a run that ended normally executed only statements the database
  accepted; a run that raised ends with the statement the database refused, and raised
  what the database answered. \<open>quiet\<close>: a part of a script that neither connects
  nor closes. \<open>closing\<close>: a tail of a script that closes the connection as its last
  step, if it gets there.
\<close>

definition orderly :: "database \<Rightarrow> 'a prog \<Rightarrow> bool" where
  "orderly db p =
     (case snd p of
        Inr _ \<Rightarrow> \<forall>q \<in> set (executed (fst p)). \<not> isl (engine db q)
      | Inl e \<Rightarrow> \<exists>pre q. fst p = pre @ [Execute q] \<and> engine db q = Inl e \<and>
                  (\<forall>q' \<in> set (executed pre). \<not> isl (engine db q')))"

definition quiet :: "'a prog \<Rightarrow> bool" where
  "quiet p = (Connect \<notin> set (fst p) \<and> Close \<notin> set (fst p))"

definition steady :: "database \<Rightarrow> 'a prog \<Rightarrow> bool" where
  "steady db p = (orderly db p \<and> quiet p)"

definition closing :: "'a prog \<Rightarrow> bool" where
  "closing p =
     (Connect \<notin> set (fst p) \<and>
      (case snd p of
         Inr _ \<Rightarrow> \<exists>mid. fst p = mid @ [Close] \<and> Close \<notin> set mid
       | Inl _ \<Rightarrow> Close \<notin> set (fst p)))"

definition framed :: "database \<Rightarrow> 'a prog \<Rightarrow> bool" where
  "framed db p =
     (orderly db p \<and>
      (\<exists>mid. Connect \<notin> set mid \<and> Close \<notin> set mid \<and>
         (case snd p of Inr _ \<Rightarrow> fst p = Connect # mid @ [Close] | Inl _ \<Rightarrow> fst p = Connect # mid)))"

section \<open>The statements of each part of the report\<close>

text \<open>
  \<open>runs_only S p\<close>: the part \<open>p\<close> executes no statement outside \<open>S\<close>. The
  sets below are the statements each part of the report can execute; \<open>detail_queries\<close>
  are the statements of a table that stand under the guard on its count.
\<close>

definition runs_only :: "stmt set \<Rightarrow> 'a prog \<Rightarrow> bool" where
  "runs_only S p = (set (executed (fst p)) \<subseteq> S)"

definition files_statements :: "stmt set" where
  "files_statements =
     {Count_rows ''files'', Select_limit [''file_path'', ''status''] ''files'' 5}"

definition pois_statements :: "stmt set" where
  "pois_statements =
     {Count_rows ''pois'', Group_count [''type''] ''pois'',
      Select_limit [''file_path'', ''name'', ''type'', ''start_line'', ''end_line''] ''pois'' 5}"

definition relationships_statements :: "stmt set" where
  "relationships_statements =
     {Count_rows ''relationships'', Group_count [''type''] ''relationships'',
      Group_count [''status''] ''relationships'',
      Count_where ''relationships'' (Eq_text ''status'' ''validated'')}"

definition outbox_statements :: "stmt set" where
  "outbox_statements =
     {Count_rows ''transactional_outbox'',
      Group_count [''event_type'', ''processed''] ''transactional_outbox''}"

definition poi_data_statements :: "stmt set" where
  "poi_data_statements =
     {Count_where ''pois'' (empty_or_null ''name''), Count_where ''pois'' (empty_or_null ''type''),
      Select_star_limit ''pois'' 1}"

definition detail_queries :: "string \<Rightarrow> stmt list" where
  "detail_queries t =
     (if t = ''files'' then [Select_limit [''file_path'', ''status''] ''files'' 5]
      else if t = ''pois'' then
        [Group_count [''type''] ''pois'',
         Select_limit [''file_path'', ''name'', ''type'', ''start_line'', ''end_line''] ''pois'' 5,
         Count_where ''pois'' (empty_or_null ''name''),
         Count_where ''pois'' (empty_or_null ''type''),
         Select_star_limit ''pois'' 1]
      else if t = ''relationships'' then
        [Group_count [''type''] ''relationships'',
         Group_count [''status''] ''relationships'',
         Count_where ''relationships'' (Eq_text ''status'' ''validated'')]
      else if t = ''transactional_outbox'' then
        [Group_count [''event_type'', ''processed''] ''transactional_outbox'']
      else [])"

text \<open>
  The label in front of a table's count, and what the script does next when the guarded
  block of the table is skipped.
\<close>

definition count_label :: "string \<Rightarrow> string" where
  "count_label t =
     (if t = ''files'' then ''Files processed: ''
      else if t = ''pois'' then ''POIs extracted: ''
      else if t = ''relationships'' then ''Relationships discovered: ''
      else if t = ''relationship_evidence'' then ''Relationship evidence entries: ''
      else ''Transactional outbox entries: '')"

definition after_count :: "string \<Rightarrow> event" where
  "after_count t =
     (if t = ''relationship_evidence'' then Execute (Count_rows ''transactional_outbox'')
      else Print separator)"

text \<open>
  The groups of a table by some of its columns, each with its number of rows as the last
  value, as \<open>GROUP BY\<close> with \<open>COUNT(*)\<close> returns them, and the integer a value
  holds.
\<close>

definition count_of :: "val \<Rightarrow> int" where
  "count_of v = (case v of IntV n \<Rightarrow> n | _ \<Rightarrow> 0)"

definition breakdown :: "object \<Rightarrow> string list \<Rightarrow> val list list" where
  "breakdown ob ks = grouped (map (\<lambda>r. map (column_value (obj_columns ob) r) ks) (obj_rows ob))"

section \<open>Basic facts\<close>

lemma bnd_alt:
  "bnd m f = (case snd m of Inl e \<Rightarrow> (fst m, Inl e) | Inr x \<Rightarrow> (fst m @ fst (f x), snd (f x)))"
  by (simp add: bnd_def split: prod.splits sum.splits)

lemma fst_bnd: "fst (bnd m f) = (case snd m of Inl e \<Rightarrow> fst m | Inr x \<Rightarrow> fst m @ fst (f x))"
  by (simp add: bnd_alt split: sum.splits)

lemma snd_bnd: "snd (bnd m f) = (case snd m of Inl e \<Rightarrow> Inl e | Inr x \<Rightarrow> snd (f x))"
  by (simp add: bnd_alt split: sum.splits)

lemma executed_append [simp]: "executed (xs @ ys) = executed xs @ executed ys"
  by (simp add: executed_def)

lemma executed_simps [simp]:
  "executed [] = []"
  "executed (Execute q # tr) = q # executed tr"
  "executed (Print s # tr) = executed tr"
  "executed (Connect # tr) = executed tr"
  "executed (Close # tr) = executed tr"
  by (simp_all add: executed_def)

lemma printed_append [simp]: "printed (xs @ ys) = printed xs @ printed ys"
  by (simp add: printed_def)

lemma printed_simps [simp]:
  "printed [] = []"
  "printed (Print s # tr) = s # printed tr"
  "printed (Execute q # tr) = printed tr"
  "printed (Connect # tr) = printed tr"
  "printed (Close # tr) = printed tr"
  by (simp_all add: printed_def)

lemma set_executed: "q \<in> set (executed tr) \<longleftrightarrow> Execute q \<in> set tr"
  by (induction tr) (auto simp: executed_def split: event.splits)

lemma orderly_bnd:
  assumes "orderly db m" and "\<And>x. snd m = Inr x \<Longrightarrow> orderly db (f x)"
  shows "orderly db (bnd m f)"
proof (cases "snd m")
  case (Inl e)
  with assms(1) show ?thesis by (simp add: orderly_def bnd_alt)
next
  case (Inr x)
  from assms(2)[OF Inr] have fx: "orderly db (f x)" .
  from assms(1) Inr have m: "\<forall>q \<in> set (executed (fst m)). \<not> isl (engine db q)"
    by (simp add: orderly_def)
  show ?thesis
  proof (cases "snd (f x)")
    case (Inr y)
    with fx m \<open>snd m = Inr x\<close> show ?thesis by (auto simp: orderly_def bnd_alt)
  next
    case (Inl e)
    with fx obtain pre q where "fst (f x) = pre @ [Execute q]" "engine db q = Inl e"
      "\<forall>q' \<in> set (executed pre). \<not> isl (engine db q')"
      by (auto simp: orderly_def)
    then have "fst m @ fst (f x) = (fst m @ pre) @ [Execute q] \<and> engine db q = Inl e \<and>
        (\<forall>q' \<in> set (executed (fst m @ pre)). \<not> isl (engine db q'))"
      using m by auto
    then show ?thesis using Inl \<open>snd m = Inr x\<close> unfolding orderly_def bnd_alt
      by (simp del: append_assoc)
  qed
qed

lemma quiet_bnd:
  assumes "quiet m" and "\<And>x. snd m = Inr x \<Longrightarrow> quiet (f x)"
  shows "quiet (bnd m f)"
  using assms by (cases "snd m") (auto simp: quiet_def bnd_alt)

lemma steady_bnd:
  assumes "steady db m" and "\<And>x. snd m = Inr x \<Longrightarrow> steady db (f x)"
  shows "steady db (bnd m f)"
  using assms unfolding steady_def by (blast intro: orderly_bnd quiet_bnd)

lemma steady_ret [simp]: "steady db (ret x)"
  by (simp add: steady_def orderly_def quiet_def ret_def)

lemma steady_print [simp]: "steady db (print s)"
  by (simp add: steady_def orderly_def quiet_def print_def)

lemma steady_execute [simp]: "steady db (execute db q)"
  by (cases "engine db q") (simp_all add: steady_def orderly_def quiet_def execute_def)

lemma steady_lift_Inr [simp]: "steady db (lift (Inr x))"
  by (simp add: steady_def orderly_def quiet_def lift_def)

lemma steady_for_each:
  "(\<And>x. x \<in> set xs \<Longrightarrow> steady db (f x)) \<Longrightarrow> steady db (for_each xs f)"
  by (induction xs) (auto intro!: steady_bnd)

lemma bind_err_Inr: "bind_err r f = Inr y \<longleftrightarrow> (\<exists>x. r = Inr x \<and> f x = Inr y)"
  by (cases r) (simp_all add: bind_err_def)

lemma resolve_columns_length: "resolve_columns cols cs = Inr ics \<Longrightarrow> length ics = length cs"
  by (induction cs arbitrary: ics) (auto simp: bind_err_Inr split: option.splits)

lemma count_rows_cursor: "engine db (Count_rows t) = Inr cur \<Longrightarrow> \<exists>n. cur = count_cursor n"
  by (auto simp: engine.simps bind_err_Inr)

lemma count_where_cursor: "engine db (Count_where t w) = Inr cur \<Longrightarrow> \<exists>n. cur = count_cursor n"
  by (auto simp: engine.simps bind_err_Inr)

lemma select_limit_rows:
  "engine db (Select_limit cs t n) = Inr cur \<Longrightarrow> r \<in> set (fetchall cur) \<Longrightarrow> length r = length cs"
  by (auto simp: engine.simps bind_err_Inr fetchall_def dest!: resolve_columns_length)

lemma group_count_rows:
  "engine db (Group_count ks t) = Inr cur \<Longrightarrow> r \<in> set (fetchall cur) \<Longrightarrow> length r = Suc (length ks)"
  by (auto simp: engine.simps bind_err_Inr fetchall_def group_rows_def grouped_def dest!: resolve_columns_length)

lemma table_info_rows:
  "engine db (Table_info t) = Inr cur \<Longrightarrow> r \<in> set (fetchall cur) \<Longrightarrow> length r = 6"
  by (auto simp: engine.simps fetchall_def info_row_def split: if_splits option.splits)

lemma master_tables_rows:
  "engine db Master_tables = Inr cur \<Longrightarrow> r \<in> set (fetchall cur) \<Longrightarrow> length r = 1"
  by (auto simp: engine.simps fetchall_def)

lemma select_star_rows:
  "engine db (Select_star_limit t n) = Inr cur \<Longrightarrow> r \<in> set (pending cur) \<Longrightarrow>
     length r = length (description cur)"
  by (auto simp: engine.simps bind_err_Inr)

lemma fetchone_count [simp]: "item_opt (fetchone (count_cursor n)) 0 = Inr (IntV (int n))"
  by (simp add: item_opt_def fetchone_def count_cursor_def item_def)

lemma snd_execute [simp]: "snd (execute db q) = engine db q"
  by (simp add: execute_def)

lemma snd_print [simp]: "snd (print s) = Inr ()"
  by (simp add: print_def)

lemma snd_lift [simp]: "snd (lift r) = r"
  by (simp add: lift_def)

lemma steady_item: "i < length r \<Longrightarrow> steady db (lift (item r i))"
  by (simp add: item_def)

lemma steady_count_rows:
  assumes "\<And>n. steady db (f (IntV (int n)))"
  shows "steady db (bnd (execute db (Count_rows t)) (\<lambda>cur. bnd (lift (item_opt (fetchone cur) 0)) f))"
proof (rule steady_bnd)
  fix cur assume "snd (execute db (Count_rows t)) = Inr cur"
  then have "engine db (Count_rows t) = Inr cur" by (simp only: snd_execute)
  then obtain n where "cur = count_cursor n" by (blast dest: count_rows_cursor)
  then show "steady db (bnd (lift (item_opt (fetchone cur) 0)) f)"
    using assms by (auto intro!: steady_bnd)
qed simp

lemma steady_count_where:
  assumes "\<And>n. steady db (f (IntV (int n)))"
  shows "steady db (bnd (execute db (Count_where t w)) (\<lambda>cur. bnd (lift (item_opt (fetchone cur) 0)) f))"
proof (rule steady_bnd)
  fix cur assume "snd (execute db (Count_where t w)) = Inr cur"
  then have "engine db (Count_where t w) = Inr cur" by (simp only: snd_execute)
  then obtain n where "cur = count_cursor n" by (blast dest: count_where_cursor)
  then show "steady db (bnd (lift (item_opt (fetchone cur) 0)) f)"
    using assms by (auto intro!: steady_bnd)
qed simp

lemma steady_greater_0 [simp]: "steady db (lift (greater_0 (IntV n)))"
  by simp

lemma steady_exec:
  "(\<And>cur. engine db q = Inr cur \<Longrightarrow> steady db (f cur)) \<Longrightarrow> steady db (bnd (execute db q) f)"
  by (rule steady_bnd) simp_all

lemma steady_select_loop:
  "engine db (Select_limit cs t n) = Inr cur \<Longrightarrow> (\<And>r. length r = length cs \<Longrightarrow> steady db (f r)) \<Longrightarrow>
     steady db (for_each (fetchall cur) f)"
  by (rule steady_for_each) (blast dest: select_limit_rows)

lemma steady_group_loop:
  "engine db (Group_count ks t) = Inr cur \<Longrightarrow> (\<And>r. length r = Suc (length ks) \<Longrightarrow> steady db (f r)) \<Longrightarrow>
     steady db (for_each (fetchall cur) f)"
  by (rule steady_for_each) (blast dest: group_count_rows)

lemma steady_info_loop:
  "engine db (Table_info t) = Inr cur \<Longrightarrow> (\<And>r. length r = 6 \<Longrightarrow> steady db (f r)) \<Longrightarrow>
     steady db (for_each (fetchall cur) f)"
  by (rule steady_for_each) (blast dest: table_info_rows)

lemma steady_master_loop:
  "engine db Master_tables = Inr cur \<Longrightarrow> (\<And>r. length r = 1 \<Longrightarrow> steady db (f r)) \<Longrightarrow>
     steady db (for_each (fetchall cur) f)"
  by (rule steady_for_each) (blast dest: master_tables_rows)

lemma count_cursorE:
  assumes "engine db (Count_rows t) = Inr cur \<or> engine db (Count_where t w) = Inr cur"
  obtains n where "cur = count_cursor n"
  using assms count_rows_cursor count_where_cursor by blast

lemmas steady_intros =
  steady_count_rows steady_count_where steady_exec steady_bnd steady_item
  steady_ret steady_print steady_greater_0

lemmas steady_loops =
  steady_select_loop steady_group_loop steady_info_loop steady_master_loop
  count_cursorE [OF disjI1] count_cursorE [OF disjI2]

lemma steady_check_files: "steady db (check_files db)"
  unfolding check_files_def
  by (intro steady_intros) (auto elim!: steady_loops intro!: steady_intros)

lemma steady_check_pois: "steady db (check_pois db)"
  unfolding check_pois_def
  by (intro steady_intros) (auto elim!: steady_loops intro!: steady_intros)

lemma steady_check_relationships: "steady db (check_relationships db)"
  unfolding check_relationships_def
  by (intro steady_intros) (auto elim!: steady_loops intro!: steady_intros)

lemma steady_check_evidence: "steady db (check_evidence db)"
  unfolding check_evidence_def
  by (intro steady_intros)

lemma steady_check_outbox: "steady db (check_outbox db)"
  unfolding check_outbox_def
  by (intro steady_intros) (auto elim!: steady_loops intro!: steady_intros)

lemma steady_dump:
  assumes "engine db (Select_star_limit t n) = Inr cur" and "fetchone cur = Some row"
  shows "steady db (for_each (enumerate 0 (description cur)) (\<lambda>icol.
           bnd (lift (item row (fst icol))) (\<lambda>v. print (g icol v))))"
proof (rule steady_for_each)
  fix x assume "x \<in> set (enumerate 0 (description cur))"
  then have "fst x < length (description cur)"
    by (simp add: in_set_enumerate_eq)
  moreover have "row \<in> set (pending cur)"
    using assms(2) by (auto simp: fetchone_def split: list.splits)
  ultimately have "fst x < length row"
    using select_star_rows [OF assms(1)] by simp
  then show "steady db (bnd (lift (item row (fst x))) (\<lambda>v. print (g x v)))"
    by (intro steady_intros)
qed

lemma steady_check_poi_data: "steady db (check_poi_data db (IntV n))"
  unfolding check_poi_data_def
  by (intro steady_intros)
     (auto elim!: steady_loops intro!: steady_intros steady_dump split: option.splits)

lemma check_pois_returns: "snd (check_pois db) = Inr v \<Longrightarrow> \<exists>n. v = IntV n"
  unfolding check_pois_def
  by (auto simp: snd_bnd ret_def elim!: count_cursorE [OF disjI1] split: sum.splits)

lemma steady_show_structure: "length table = 1 \<Longrightarrow> steady db (show_structure db table)"
  unfolding show_structure_def
  by (intro steady_intros) (auto elim!: steady_loops intro!: steady_intros)

lemma closing_close: "closing close"
  by (simp add: closing_def close_def)

lemma closing_bnd:
  assumes "steady db m" and "\<And>x. snd m = Inr x \<Longrightarrow> closing (f x)"
  shows "closing (bnd m f)"
proof (cases "snd m")
  case (Inl e)
  with assms(1) show ?thesis by (simp add: closing_def steady_def quiet_def bnd_alt)
next
  case (Inr x)
  from assms(2) [OF Inr] have fx: "closing (f x)" .
  from assms(1) have q: "Connect \<notin> set (fst m)" "Close \<notin> set (fst m)"
    by (simp_all add: steady_def quiet_def)
  show ?thesis
  proof (cases "snd (f x)")
    case (Inl e)
    with fx q Inr show ?thesis by (simp add: closing_def bnd_alt)
  next
    case (Inr y)
    with fx obtain mid where mid: "fst (f x) = mid @ [Close]" "Close \<notin> set mid" "Connect \<notin> set mid"
      by (auto simp: closing_def)
    have "\<exists>mid'. fst m @ fst (f x) = mid' @ [Close] \<and> Close \<notin> set mid'"
      using q mid by (intro exI [of _ "fst m @ mid"]) simp
    moreover have "Connect \<notin> set (fst m @ fst (f x))"
      using q mid by simp
    ultimately show ?thesis using Inr \<open>snd m = Inr x\<close> unfolding closing_def bnd_alt
      by simp
  qed
qed

lemma orderly_connect: "orderly db connect"
  by (simp add: orderly_def connect_def)

lemma orderly_close: "orderly db close"
  by (simp add: orderly_def close_def)

lemmas steady_sections =
  steady_check_files steady_check_pois steady_check_relationships steady_check_evidence
  steady_check_outbox steady_print

lemma orderly_analyze_database: "orderly db (analyze_database db)"
  unfolding analyze_database_def
  by (intro orderly_bnd orderly_connect orderly_close steady_sections [THEN steady_def [THEN iffD1, THEN conjunct1]])
     (auto dest!: check_pois_returns intro: steady_check_poi_data [THEN steady_def [THEN iffD1, THEN conjunct1]])

lemma closing_analyze_database:
  "closing (bnd (print s) (\<lambda>_.
     bnd (check_files db) (\<lambda>_.
     bnd (print separator) (\<lambda>_.
     bnd (check_pois db) (\<lambda>poi_count.
     bnd (print separator) (\<lambda>_.
     bnd (check_relationships db) (\<lambda>_.
     bnd (print separator) (\<lambda>_.
     bnd (check_evidence db) (\<lambda>_.
     bnd (check_outbox db) (\<lambda>_.
     bnd (print separator) (\<lambda>_.
     bnd (check_poi_data db poi_count) (\<lambda>_.
     close))))))))))))"
  by (intro closing_bnd [where db = db] closing_close steady_sections)
     (auto dest!: check_pois_returns intro: steady_check_poi_data)

lemma framed_connect:
  assumes "orderly db (bnd connect (\<lambda>_. p))" and "closing p"
  shows "framed db (bnd connect (\<lambda>_. p))"
proof (cases "snd p")
  case (Inl e)
  with assms show ?thesis
    by (auto simp: framed_def closing_def bnd_alt connect_def)
next
  case (Inr y)
  with assms(2) obtain mid where "fst p = mid @ [Close]" "Close \<notin> set mid" "Connect \<notin> set mid"
    by (auto simp: closing_def)
  with assms(1) Inr show ?thesis
    by (auto simp: framed_def bnd_alt connect_def)
qed

lemma framed_analyze_database: "framed db (analyze_database db)"
  using orderly_analyze_database [of db] closing_analyze_database
  unfolding analyze_database_def by (rule framed_connect)

lemma steady_list_tables:
  "engine db Master_tables = Inr cur \<Longrightarrow>
     steady db (for_each (fetchall cur) (\<lambda>table. bnd (lift (item table 0)) (\<lambda>t0. print (g t0))))"
  by (erule steady_master_loop) (auto intro!: steady_intros)

lemma steady_structures:
  "engine db Master_tables = Inr cur \<Longrightarrow> steady db (for_each (fetchall cur) (show_structure db))"
  by (erule steady_master_loop) (rule steady_show_structure)

lemma orderly_check_tables: "orderly db (check_tables db)"
  unfolding check_tables_def
  by (intro orderly_bnd orderly_connect orderly_close
        steady_execute [THEN steady_def [THEN iffD1, THEN conjunct1]]
        steady_print [THEN steady_def [THEN iffD1, THEN conjunct1]])
     (auto intro: steady_list_tables [THEN steady_def [THEN iffD1, THEN conjunct1]]
        steady_structures [THEN steady_def [THEN iffD1, THEN conjunct1]])

lemma closing_check_tables:
  "closing (bnd (execute db Master_tables) (\<lambda>cur.
     bnd (print s) (\<lambda>_.
     bnd (for_each (fetchall cur) (\<lambda>table.
       bnd (lift (item table 0)) (\<lambda>t0.
       print (g t0)))) (\<lambda>_.
     bnd (for_each (fetchall cur) (show_structure db)) (\<lambda>_.
     close)))))"
  by (intro closing_bnd [where db = db] closing_close steady_execute steady_print)
     (auto intro: steady_list_tables steady_structures)

lemma framed_check_tables: "framed db (check_tables db)"
  using orderly_check_tables [of db] closing_check_tables
  unfolding check_tables_def by (rule framed_connect)

section \<open>Failure of a query\<close>

lemma orderly_failure:
  assumes "orderly db p" and "fst p = pre @ Execute q # post" and "isl (engine db q)"
  shows "post = [] \<and> snd p = Inl (projl (engine db q))"
proof (cases "snd p")
  case (Inr y)
  with assms(1) have "\<forall>q \<in> set (executed (fst p)). \<not> isl (engine db q)"
    by (simp add: orderly_def)
  with assms(2,3) show ?thesis by simp
next
  case (Inl e)
  with assms(1) obtain pre' q' where p: "fst p = pre' @ [Execute q']" "engine db q' = Inl e"
    "\<forall>q \<in> set (executed pre'). \<not> isl (engine db q)"
    by (auto simp: orderly_def)
  show ?thesis
  proof (cases "post = []")
    case True
    with assms(2) p(1) have "q = q'" by simp
    with True Inl p(2) show ?thesis by simp
  next
    case False
    then obtain post' ev where "post = post' @ [ev]"
      by (metis append_butlast_last_id)
    with assms(2) p(1) have "pre' = pre @ Execute q # post'" by simp
    with p(3) assms(3) show ?thesis by simp
  qed
qed

lemma orderly_success:
  assumes "orderly db p" and "\<forall>q \<in> set (executed (fst p)). \<not> isl (engine db q)"
  shows "\<exists>y. snd p = Inr y"
proof (cases "snd p")
  case (Inl e)
  with assms(1) obtain pre q where "fst p = pre @ [Execute q]" "engine db q = Inl e"
    by (auto simp: orderly_def)
  with assms(2) show ?thesis by simp
qed simp


lemma run_no_tables:
  "analyze_database [] =
     ([Connect, Print ''=== DATABASE ANALYSIS ===\<newline>'', Execute (Count_rows ''files'')],
      Inl (No_such_table ''files''))"
  by code_simp

lemma lister_empty_db:
  "list_all (\<lambda>q. \<not> isl (engine empty_db q)) (executed (fst (check_tables empty_db)))"
  by code_simp


section \<open>The connection\<close>

lemma framed_scripts:
  "p = analyze_database db \<or> p = check_tables db \<Longrightarrow> framed db p"
  using framed_analyze_database framed_check_tables by blast



section \<open>Table names in the statements of the table lister\<close>

lemma run_lister_spaced_db:
  "check_tables spaced_db =
     ([Connect, Execute Master_tables, Print ''Tables in database:'',
       Print ''  - my table'', Print ''\<newline>my table structure:'',
       Execute (Table_info ''my table'')],
      Inl (Syntax_error ''my table''))"
  by code_simp

text \<open>
  Claim C10. The table lister puts the name the catalog reports into the statement text as it
  is. There is a database with a table (named \<open>my table\<close>) for which the statement
  sent is \<open>PRAGMA table_info(my table)\<close>, and the inspection of that table raises a
  syntax error although the table is in the catalog.
\<close>

theorem unquoted_table_name_breaks_lister:
  "\<exists>db. (\<exists>ob \<in> set db. obj_type ob = ''table'' \<and> obj_name ob = ''my table'') \<and>
     \<not> bare_identifier ''my table'' \<and>
     map sql (executed (fst (check_tables db))) =
       [sql Master_tables, ''PRAGMA table_info(my table)''] \<and>
     sql (Count_rows ''my table'') = ''SELECT COUNT(*) FROM my table'' \<and>
     snd (check_tables db) = Inl (Syntax_error ''my table'')"
proof (intro exI [of _ spaced_db] conjI)
  show "\<exists>ob \<in> set spaced_db. obj_type ob = ''table'' \<and> obj_name ob = ''my table''"
    by (simp add: spaced_db_def new_table_def)
  show "\<not> bare_identifier ''my table''"
    by code_simp
  show "map sql (executed (fst (check_tables spaced_db))) =
          [sql Master_tables, ''PRAGMA table_info(my table)'']"
    by (simp add: run_lister_spaced_db)
  show "sql (Count_rows ''my table'') = ''SELECT COUNT(*) FROM my table''"
    by simp
  show "snd (check_tables spaced_db) = Inl (Syntax_error ''my table'')"
    by (simp add: run_lister_spaced_db)
qed

text \<open>
  Claim C6. The claim asks that every listed table is shown with its columns and its row
  count. On a database with the tables \<open>files\<close> and \<open>order-items\<close> the lister prints
  both names and the structure of \<open>files\<close>, then raises at the \<open>PRAGMA\<close> for
  \<open>order-items\<close>: neither its column nor its row count is printed, and the
  connection is not closed.
\<close>

theorem lister_stops_at_hyphenated_table:
  "check_tables hyphen_db =
     ([Connect, Execute Master_tables, Print ''Tables in database:'',
       Print ''  - files'', Print ''  - order-items'',
       Print ''\<newline>files structure:'', Execute (Table_info ''files''),
       Print ''  - file_path TEXT'', Print ''  - status TEXT'',
       Execute (Count_rows ''files''), Print ''  Row count: 1'',
       Print ''\<newline>order-items structure:'', Execute (Table_info ''order-items'')],
      Inl (Syntax_error ''order-items''))"
  by code_simp

section \<open>Tables without rows\<close>

lemma nat_str_0 [simp]: "nat_str 0 = ''0''"
  by (simp add: nat_str.simps)

lemma int_str_int [simp]: "int_str (int n) = nat_str n"
  by (simp add: int_str_def)

lemma int_str_0 [simp]: "int_str 0 = ''0''"
  by (simp add: int_str_def)

lemma execute_Inr: "engine db q = Inr cur \<Longrightarrow> execute db q = ([Execute q], Inr cur)"
  by (simp add: execute_def)

lemma bnd_Inr [simp]: "bnd (tr, Inr x) f = (tr @ fst (f x), snd (f x))"
  by (simp add: bnd_def split: prod.splits)

lemma bnd_Inl [simp]: "bnd (tr, Inl e) f = (tr, Inl e)"
  by (simp add: bnd_def)

lemma lift_Inr [simp]: "lift (Inr x) = ([], Inr x)"
  by (simp add: lift_def)

lemma check_files_zero:
  "engine db (Count_rows ''files'') = Inr (count_cursor 0) \<Longrightarrow>
     check_files db = ([Execute (Count_rows ''files''), Print ''Files processed: 0''], Inr ())"
  by (simp add: check_files_def execute_Inr print_def ret_def)

lemma check_pois_zero:
  "engine db (Count_rows ''pois'') = Inr (count_cursor 0) \<Longrightarrow>
     check_pois db = ([Execute (Count_rows ''pois''), Print ''POIs extracted: 0''], Inr (IntV 0))"
  by (simp add: check_pois_def execute_Inr print_def ret_def)

lemma check_relationships_zero:
  "engine db (Count_rows ''relationships'') = Inr (count_cursor 0) \<Longrightarrow>
     check_relationships db =
       ([Execute (Count_rows ''relationships''), Print ''Relationships discovered: 0''], Inr ())"
  by (simp add: check_relationships_def execute_Inr print_def ret_def)

lemma check_evidence_count:
  "engine db (Count_rows ''relationship_evidence'') = Inr (count_cursor n) \<Longrightarrow>
     check_evidence db =
       ([Execute (Count_rows ''relationship_evidence''),
         Print (''Relationship evidence entries: '' @ nat_str n)], Inr ())"
  by (simp add: check_evidence_def execute_Inr print_def)

lemma check_outbox_zero:
  "engine db (Count_rows ''transactional_outbox'') = Inr (count_cursor 0) \<Longrightarrow>
     check_outbox db =
       ([Execute (Count_rows ''transactional_outbox''), Print ''Transactional outbox entries: 0''],
        Inr ())"
  by (simp add: check_outbox_def execute_Inr print_def ret_def)

lemma check_poi_data_zero: "check_poi_data db (IntV 0) = ([], Inr ())"
  by (simp add: check_poi_data_def ret_def)

text \<open>
  Claim C2, as amended. When the five tables exist and have no rows, the report runs to its
  end, prints 0 for each of the five totals and nothing else but the title and the
  separators, and executes no statement but the five counts. The counts of empty names and
  empty types belong to the guarded block of \<open>pois\<close> and are not printed.
\<close>

theorem empty_database_report:
  assumes "\<forall>t \<in> set named_tables. engine db (Count_rows t) = Inr (count_cursor 0)"
  shows "analyze_database db =
     ([Connect, Print ''=== DATABASE ANALYSIS ===\<newline>'',
       Execute (Count_rows ''files''), Print ''Files processed: 0'',
       Print separator,
       Execute (Count_rows ''pois''), Print ''POIs extracted: 0'',
       Print separator,
       Execute (Count_rows ''relationships''), Print ''Relationships discovered: 0'',
       Print separator,
       Execute (Count_rows ''relationship_evidence''), Print ''Relationship evidence entries: 0'',
       Execute (Count_rows ''transactional_outbox''), Print ''Transactional outbox entries: 0'',
       Print separator,
       Close],
      Inr ())"
  using assms
  by (simp add: analyze_database_def named_tables_def check_files_zero check_pois_zero
      check_relationships_zero check_evidence_count check_outbox_zero check_poi_data_zero
      connect_def close_def print_def)

lemma counts_empty_db:
  "map (engine empty_db) (map Count_rows named_tables) = replicate 5 (Inr (count_cursor 0))"
  by code_simp

theorem empty_database_report_witness:
  "analyze_database empty_db =
     ([Connect, Print ''=== DATABASE ANALYSIS ===\<newline>'',
       Execute (Count_rows ''files''), Print ''Files processed: 0'',
       Print separator,
       Execute (Count_rows ''pois''), Print ''POIs extracted: 0'',
       Print separator,
       Execute (Count_rows ''relationships''), Print ''Relationships discovered: 0'',
       Print separator,
       Execute (Count_rows ''relationship_evidence''), Print ''Relationship evidence entries: 0'',
       Execute (Count_rows ''transactional_outbox''), Print ''Transactional outbox entries: 0'',
       Print separator,
       Close],
      Inr ())"
proof (rule empty_database_report)
  show "\<forall>t \<in> set named_tables. engine empty_db (Count_rows t) = Inr (count_cursor 0)"
    using counts_empty_db by (simp add: named_tables_def eval_nat_numeral)
qed

lemma run_report_empty_db:
  "analyze_database empty_db =
     ([Connect, Print ''=== DATABASE ANALYSIS ===\<newline>'',
       Execute (Count_rows ''files''), Print ''Files processed: 0'',
       Print ''\<newline>==================================================\<newline>'',
       Execute (Count_rows ''pois''), Print ''POIs extracted: 0'',
       Print ''\<newline>==================================================\<newline>'',
       Execute (Count_rows ''relationships''),
       Print ''Relationships discovered: 0'',
       Print ''\<newline>==================================================\<newline>'',
       Execute (Count_rows ''relationship_evidence''),
       Print ''Relationship evidence entries: 0'',
       Execute (Count_rows ''transactional_outbox''),
       Print ''Transactional outbox entries: 0'',
       Print ''\<newline>==================================================\<newline>'', Close],
      Inr ())"
  by code_simp

theorem empty_database_quality_counts_counterexample:
  "map (engine empty_db) (map Count_rows named_tables) = replicate 5 (Inr (count_cursor 0)) \<and>
   snd (analyze_database empty_db) = Inr () \<and>
   ''POIs with empty names: 0'' \<notin> set (printed (fst (analyze_database empty_db))) \<and>
   ''POIs with empty types: 0'' \<notin> set (printed (fst (analyze_database empty_db)))"
  using counts_empty_db by (simp add: run_report_empty_db)

section \<open>What the statements return\<close>

lemma resolve_columns_values:
  "resolve_columns cols cs = Inr ics \<Longrightarrow>
     map (\<lambda>ic. cell r (fst ic)) ics = map (column_value cols r) cs"
  by (induction cs arbitrary: ics)
     (auto simp: bind_err_Inr column_value_def split: option.splits)

lemma count_rows_result:
  "from_table db t = Inr ob \<Longrightarrow> engine db (Count_rows t) = Inr (count_cursor (length (obj_rows ob)))"
  by (simp add: engine.simps bind_err_def)

lemma select_limit_result:
  "engine db (Select_limit cs t n) = Inr cur \<Longrightarrow> from_table db t = Inr ob \<Longrightarrow>
     fetchall cur = map (\<lambda>r. map (column_value (obj_columns ob) r) cs) (take n (obj_rows ob))"
  by (auto simp: engine.simps bind_err_Inr fetchall_def resolve_columns_values)

lemma group_count_result:
  "engine db (Group_count ks t) = Inr cur \<Longrightarrow> from_table db t = Inr ob \<Longrightarrow>
     fetchall cur = grouped (map (\<lambda>r. map (column_value (obj_columns ob) r) ks) (obj_rows ob))"
  by (auto simp: engine.simps bind_err_Inr fetchall_def group_rows_def resolve_columns_values [symmetric]
      comp_def)

lemma count_where_result:
  "engine db (Count_where t w) = Inr cur \<Longrightarrow> from_table db t = Inr ob \<Longrightarrow>
     cur = count_cursor (length (filter (\<lambda>r. truth (obj_columns ob) r w = Some True) (obj_rows ob)))"
  by (auto simp: engine.simps bind_err_Inr)

lemma truth_empty_or_null:
  "truth cols r (empty_or_null c) = Some True \<longleftrightarrow>
     column_value cols r c = Null \<or> column_value cols r c = TextV []"
  by (auto simp: empty_or_null_def split: bool.splits)

lemma sum_counts_sorted:
  "(\<Sum>k\<leftarrow>sort_key f (remdups ks). int (count_list ks k)) = int (length ks)"
proof -
  have "(\<Sum>k\<leftarrow>sort_key f (remdups ks). int (count_list ks k)) =
          (\<Sum>k\<in>set (sort_key f (remdups ks)). int (count_list ks k))"
    by (rule sum_list_distinct_conv_sum_set) simp
  also have "\<dots> = int (\<Sum>k\<in>set ks. count_list ks k)"
    by simp
  also have "\<dots> = int (length ks)"
    by (simp add: sum_count_set)
  finally show ?thesis .
qed

section \<open>The sections of the report, statement by statement\<close>

lemma for_each_print:
  "(\<And>x. x \<in> set xs \<Longrightarrow> f x = print (g x)) \<Longrightarrow>
     for_each xs f = (map (\<lambda>x. Print (g x)) xs, Inr ())"
  by (induction xs) (simp_all add: ret_def print_def)

lemma item_in_range: "i < length r \<Longrightarrow> lift (item r i) = ([], Inr (r ! i))"
  by (simp add: item_def)

lemma execute_Inl: "engine db q = Inl e \<Longrightarrow> execute db q = ([Execute q], Inl e)"
  by (simp add: execute_def)

lemma print_rows2:
  assumes "\<And>r. r \<in> set rows \<Longrightarrow> length r = 2"
  shows "for_each rows (\<lambda>row.
           bnd (lift (item row 0)) (\<lambda>r0.
           bnd (lift (item row (Suc 0))) (\<lambda>r1.
           print (g r0 r1)))) =
         (map (\<lambda>row. Print (g (row ! 0) (row ! 1))) rows, Inr ())"
  by (rule for_each_print) (simp add: assms item_in_range print_def)

lemma print_rows3:
  assumes "\<And>r. r \<in> set rows \<Longrightarrow> length r = 3"
  shows "for_each rows (\<lambda>row.
           bnd (lift (item row 0)) (\<lambda>r0.
           bnd (lift (item row (Suc 0))) (\<lambda>r1.
           bnd (lift (item row 2)) (\<lambda>r2.
           print (g r0 r1 r2))))) =
         (map (\<lambda>row. Print (g (row ! 0) (row ! 1) (row ! 2))) rows, Inr ())"
  by (rule for_each_print) (simp add: assms item_in_range print_def)

lemma print_rows5:
  assumes "\<And>r. r \<in> set rows \<Longrightarrow> length r = 5"
  shows "for_each rows (\<lambda>row.
           bnd (lift (item row 0)) (\<lambda>r0.
           bnd (lift (item row (Suc 0))) (\<lambda>r1.
           bnd (lift (item row 2)) (\<lambda>r2.
           bnd (lift (item row 3)) (\<lambda>r3.
           bnd (lift (item row 4)) (\<lambda>r4.
           print (g r0 r1 r2 r3 r4))))))) =
         (map (\<lambda>row. Print (g (row ! 0) (row ! 1) (row ! 2) (row ! 3) (row ! 4))) rows, Inr ())"
  by (rule for_each_print) (simp add: assms item_in_range print_def)

lemma bnd_print [simp]: "bnd (print s) f = (Print s # fst (f ()), snd (f ()))"
  by (simp add: print_def)

lemma greater_0_count [simp]: "greater_0 (IntV (int n)) = Inr (0 < n)"
  by simp

lemma check_files_positive:
  assumes "engine db (Count_rows ''files'') = Inr (count_cursor n)" and "0 < n"
    and "engine db (Select_limit [''file_path'', ''status''] ''files'' 5) = Inr cur"
  shows "check_files db =
     ([Execute (Count_rows ''files''), Print (''Files processed: '' @ nat_str n),
       Execute (Select_limit [''file_path'', ''status''] ''files'' 5), Print ''Sample files:'']
      @ map (\<lambda>row. Print (sample_file_line (row ! 0) (row ! 1))) (fetchall cur), Inr ())"
proof -
  have "\<And>r. r \<in> set (fetchall cur) \<Longrightarrow> length r = 2"
    using select_limit_rows [OF assms(3)] by simp
  then show ?thesis
    unfolding check_files_def using assms(2)
    by (simp add: execute_Inr [OF assms(1)] execute_Inr [OF assms(3)] print_rows2)
qed

lemma bnd_execute_Inr:
  "engine db q = Inr cur \<Longrightarrow> bnd (execute db q) f = (Execute q # fst (f cur), snd (f cur))"
  by (simp add: execute_Inr)

lemma check_pois_positive:
  assumes "engine db (Count_rows ''pois'') = Inr (count_cursor n)" and "0 < n"
    and "engine db (Group_count [''type''] ''pois'') = Inr g"
    and "engine db (Select_limit [''file_path'', ''name'', ''type'', ''start_line'', ''end_line''] ''pois'' 5) = Inr s"
  shows "check_pois db =
     ([Execute (Count_rows ''pois''), Print (''POIs extracted: '' @ nat_str n),
       Execute (Group_count [''type''] ''pois''), Print ''POI types:'']
      @ map (\<lambda>row. Print (group_line (row ! 0) (row ! 1))) (fetchall g)
      @ [Execute (Select_limit [''file_path'', ''name'', ''type'', ''start_line'', ''end_line''] ''pois'' 5),
         Print ''\<newline>Sample POIs:'']
      @ map (\<lambda>row. Print (sample_poi_line (row ! 0) (row ! 1) (row ! 2) (row ! 3) (row ! 4))) (fetchall s),
      Inr (IntV (int n)))"
proof -
  have g: "\<And>r. r \<in> set (fetchall g) \<Longrightarrow> length r = 2"
    using group_count_rows [OF assms(3)] by simp
  have s: "\<And>r. r \<in> set (fetchall s) \<Longrightarrow> length r = 5"
    using select_limit_rows [OF assms(4)] by simp
  show ?thesis
    unfolding check_pois_def using assms(2)
    by (simp add: bnd_execute_Inr [OF assms(1)] bnd_execute_Inr [OF assms(3)]
        bnd_execute_Inr [OF assms(4)] print_rows2 [OF g] print_rows5 [OF s] ret_def)
qed

lemma check_relationships_positive:
  assumes "engine db (Count_rows ''relationships'') = Inr (count_cursor n)" and "0 < n"
    and "engine db (Group_count [''type''] ''relationships'') = Inr g1"
    and "engine db (Group_count [''status''] ''relationships'') = Inr g2"
    and "engine db (Count_where ''relationships'' (Eq_text ''status'' ''validated'')) = Inr (count_cursor k)"
  shows "check_relationships db =
     ([Execute (Count_rows ''relationships''), Print (''Relationships discovered: '' @ nat_str n),
       Execute (Group_count [''type''] ''relationships''), Print ''Relationship types:'']
      @ map (\<lambda>row. Print (group_line (row ! 0) (row ! 1))) (fetchall g1)
      @ [Execute (Group_count [''status''] ''relationships''), Print ''\<newline>Relationship statuses:'']
      @ map (\<lambda>row. Print (group_line (row ! 0) (row ! 1))) (fetchall g2)
      @ [Execute (Count_where ''relationships'' (Eq_text ''status'' ''validated'')),
         Print (''\<newline>Validated relationships: '' @ nat_str k)],
      Inr ())"
proof -
  have g1: "\<And>r. r \<in> set (fetchall g1) \<Longrightarrow> length r = 2"
    using group_count_rows [OF assms(3)] by simp
  have g2: "\<And>r. r \<in> set (fetchall g2) \<Longrightarrow> length r = 2"
    using group_count_rows [OF assms(4)] by simp
  show ?thesis
    unfolding check_relationships_def using assms(2)
    by (simp add: bnd_execute_Inr [OF assms(1)] bnd_execute_Inr [OF assms(3)]
        bnd_execute_Inr [OF assms(4)] bnd_execute_Inr [OF assms(5)]
        print_rows2 [OF g1] print_rows2 [OF g2])
       (simp add: print_def)
qed

lemma check_outbox_positive:
  assumes "engine db (Count_rows ''transactional_outbox'') = Inr (count_cursor n)" and "0 < n"
    and "engine db (Group_count [''event_type'', ''processed''] ''transactional_outbox'') = Inr g"
  shows "check_outbox db =
     ([Execute (Count_rows ''transactional_outbox''),
       Print (''Transactional outbox entries: '' @ nat_str n),
       Execute (Group_count [''event_type'', ''processed''] ''transactional_outbox''),
       Print ''Outbox status:'']
      @ map (\<lambda>row. Print (outbox_line (row ! 0) (row ! 1) (row ! 2))) (fetchall g),
      Inr ())"
proof -
  have g: "\<And>r. r \<in> set (fetchall g) \<Longrightarrow> length r = 3"
    using group_count_rows [OF assms(3)] by simp
  show ?thesis
    unfolding check_outbox_def using assms(2)
    by (simp add: bnd_execute_Inr [OF assms(1)] bnd_execute_Inr [OF assms(3)] print_rows3 [OF g])
qed

lemma check_poi_data_positive:
  assumes "0 < n"
    and "engine db (Count_where ''pois'' (empty_or_null ''name'')) = Inr (count_cursor a)"
    and "engine db (Count_where ''pois'' (empty_or_null ''type'')) = Inr (count_cursor b)"
    and "engine db (Select_star_limit ''pois'' 1) = Inr st"
  shows "\<exists>post. fst (check_poi_data db (IntV (int n))) =
     [Execute (Count_where ''pois'' (empty_or_null ''name'')),
      Execute (Count_where ''pois'' (empty_or_null ''type'')),
      Print (''POIs with empty names: '' @ nat_str a),
      Print (''POIs with empty types: '' @ nat_str b),
      Execute (Select_star_limit ''pois'' 1)] @ post"
proof -
  have st: "engine db (Select_star_limit ''pois'' (Suc 0)) = Inr st"
    using assms(4) by simp
  show ?thesis
    unfolding check_poi_data_def using assms(1)
    by (simp add: bnd_execute_Inr [OF assms(2)] bnd_execute_Inr [OF assms(3)]
        bnd_execute_Inr [OF st])
qed

text \<open>A section that ends normally got an answer to each of its statements.\<close>

lemma check_files_answers:
  assumes "snd (check_files db) = Inr u" and "engine db (Count_rows ''files'') = Inr (count_cursor n)"
    and "0 < n"
  shows "\<exists>cur. engine db (Select_limit [''file_path'', ''status''] ''files'' 5) = Inr cur"
  using assms unfolding check_files_def
  by (auto simp: snd_bnd split: sum.splits)

lemma check_pois_answers:
  assumes "snd (check_pois db) = Inr v" and "engine db (Count_rows ''pois'') = Inr (count_cursor n)"
    and "0 < n"
  shows "\<exists>g s. engine db (Group_count [''type''] ''pois'') = Inr g \<and>
     engine db (Select_limit [''file_path'', ''name'', ''type'', ''start_line'', ''end_line''] ''pois'' 5) = Inr s"
  using assms unfolding check_pois_def
  by (auto simp: snd_bnd split: sum.splits)

lemma check_relationships_answers:
  assumes "snd (check_relationships db) = Inr u"
    and "engine db (Count_rows ''relationships'') = Inr (count_cursor n)" and "0 < n"
  shows "\<exists>g1 g2 k. engine db (Group_count [''type''] ''relationships'') = Inr g1 \<and>
     engine db (Group_count [''status''] ''relationships'') = Inr g2 \<and>
     engine db (Count_where ''relationships'' (Eq_text ''status'' ''validated'')) = Inr (count_cursor k)"
  using assms unfolding check_relationships_def
  by (auto simp: snd_bnd split: sum.splits elim!: count_cursorE [OF disjI2])

lemma check_outbox_answers:
  assumes "snd (check_outbox db) = Inr u"
    and "engine db (Count_rows ''transactional_outbox'') = Inr (count_cursor n)" and "0 < n"
  shows "\<exists>g. engine db (Group_count [''event_type'', ''processed''] ''transactional_outbox'') = Inr g"
  using assms unfolding check_outbox_def
  by (auto simp: snd_bnd split: sum.splits)

lemma check_poi_data_answers:
  assumes "snd (check_poi_data db (IntV (int n))) = Inr u" and "0 < n"
  shows "\<exists>a b st. engine db (Count_where ''pois'' (empty_or_null ''name'')) = Inr (count_cursor a) \<and>
     engine db (Count_where ''pois'' (empty_or_null ''type'')) = Inr (count_cursor b) \<and>
     engine db (Select_star_limit ''pois'' 1) = Inr st"
  using assms unfolding check_poi_data_def
  by (auto simp: snd_bnd split: sum.splits elim!: count_cursorE [OF disjI2])

lemma section_counts:
  "snd (check_files db) = Inr u \<Longrightarrow> \<exists>n. engine db (Count_rows ''files'') = Inr (count_cursor n)"
  "snd (check_pois db) = Inr v \<Longrightarrow>
     \<exists>n. engine db (Count_rows ''pois'') = Inr (count_cursor n) \<and> v = IntV (int n)"
  "snd (check_relationships db) = Inr u \<Longrightarrow>
     \<exists>n. engine db (Count_rows ''relationships'') = Inr (count_cursor n)"
  "snd (check_evidence db) = Inr u \<Longrightarrow>
     \<exists>n. engine db (Count_rows ''relationship_evidence'') = Inr (count_cursor n)"
  "snd (check_outbox db) = Inr u \<Longrightarrow>
     \<exists>n. engine db (Count_rows ''transactional_outbox'') = Inr (count_cursor n)"
  unfolding check_files_def check_pois_def check_relationships_def check_evidence_def
    check_outbox_def
  by (auto simp: snd_bnd ret_def split: sum.splits elim!: count_cursorE [OF disjI1])

lemma runs_only_bnd:
  "runs_only S m \<Longrightarrow> (\<And>x. runs_only S (f x)) \<Longrightarrow> runs_only S (bnd m f)"
  by (auto simp: runs_only_def fst_bnd split: sum.splits)

lemma runs_only_simps [simp]:
  "runs_only S (ret x)"
  "runs_only S (lift r)"
  "runs_only S (print s)"
  "runs_only S (execute db q) \<longleftrightarrow> q \<in> S"
  by (simp_all add: runs_only_def ret_def lift_def print_def execute_def)

lemma runs_only_for_each:
  "(\<And>x. runs_only S (f x)) \<Longrightarrow> runs_only S (for_each xs f)"
  by (induction xs) (auto intro!: runs_only_bnd)

lemmas runs_only_intros = runs_only_bnd runs_only_for_each

lemma runs_only_check_files: "runs_only files_statements (check_files db)"
  unfolding check_files_def files_statements_def
  by (intro runs_only_intros) (auto simp del: bnd_print intro!: runs_only_intros)

lemma runs_only_check_pois: "runs_only pois_statements (check_pois db)"
  unfolding check_pois_def pois_statements_def
  by (intro runs_only_intros) (auto simp del: bnd_print intro!: runs_only_intros)

lemma runs_only_check_relationships: "runs_only relationships_statements (check_relationships db)"
  unfolding check_relationships_def relationships_statements_def
  by (intro runs_only_intros) (auto simp del: bnd_print intro!: runs_only_intros)

lemma runs_only_check_evidence: "runs_only {Count_rows ''relationship_evidence''} (check_evidence db)"
  unfolding check_evidence_def
  by (intro runs_only_intros) (auto simp del: bnd_print intro!: runs_only_intros)

lemma runs_only_check_outbox: "runs_only outbox_statements (check_outbox db)"
  unfolding check_outbox_def outbox_statements_def
  by (intro runs_only_intros) (auto simp del: bnd_print intro!: runs_only_intros)

lemma runs_only_check_poi_data: "runs_only poi_data_statements (check_poi_data db pc)"
  unfolding check_poi_data_def poi_data_statements_def
  by (intro runs_only_intros) (auto simp del: bnd_print intro!: runs_only_intros split: option.splits)

lemma analyze_database_trace:
  "fst (analyze_database db) =
     [Connect, Print ''=== DATABASE ANALYSIS ===\<newline>''] @ fst (check_files db) @
     (case snd (check_files db) of Inl _ \<Rightarrow> [] | Inr _ \<Rightarrow>
      Print separator # fst (check_pois db) @
     (case snd (check_pois db) of Inl _ \<Rightarrow> [] | Inr poi_count \<Rightarrow>
      Print separator # fst (check_relationships db) @
     (case snd (check_relationships db) of Inl _ \<Rightarrow> [] | Inr _ \<Rightarrow>
      Print separator # fst (check_evidence db) @
     (case snd (check_evidence db) of Inl _ \<Rightarrow> [] | Inr _ \<Rightarrow>
      fst (check_outbox db) @
     (case snd (check_outbox db) of Inl _ \<Rightarrow> [] | Inr _ \<Rightarrow>
      Print separator # fst (check_poi_data db poi_count) @
     (case snd (check_poi_data db poi_count) of Inl _ \<Rightarrow> [] | Inr _ \<Rightarrow> [Close]))))))"
  by (simp add: analyze_database_def fst_bnd snd_bnd connect_def print_def close_def
      split: sum.splits)

lemma analyze_database_success:
  assumes "snd (analyze_database db) = Inr u"
  shows "\<exists>poi_count.
     snd (check_files db) = Inr () \<and> snd (check_pois db) = Inr poi_count \<and>
     snd (check_relationships db) = Inr () \<and> snd (check_evidence db) = Inr () \<and>
     snd (check_outbox db) = Inr () \<and> snd (check_poi_data db poi_count) = Inr () \<and>
     fst (analyze_database db) =
       [Connect, Print ''=== DATABASE ANALYSIS ===\<newline>''] @ fst (check_files db) @
       Print separator # fst (check_pois db) @
       Print separator # fst (check_relationships db) @
       Print separator # fst (check_evidence db) @ fst (check_outbox db) @
       Print separator # fst (check_poi_data db poi_count) @ [Close]"
  using assms
  by (auto simp: analyze_database_trace)
     (auto simp: analyze_database_def snd_bnd connect_def print_def close_def split: sum.splits)

lemma count_rows_positive:
  "from_table db t = Inr ob \<Longrightarrow> obj_rows ob \<noteq> [] \<Longrightarrow>
     engine db (Count_rows t) = Inr (count_cursor (length (obj_rows ob))) \<and> 0 < length (obj_rows ob)"
  by (simp add: count_rows_result)

lemma count_cursor_eq [simp]: "count_cursor a = count_cursor b \<longleftrightarrow> a = b"
  by (simp add: count_cursor_def)

section \<open>The report on the example database\<close>

lemma run_report_sample_db:
  "analyze_database sample_db =
  ([Connect, Print ''=== DATABASE ANALYSIS ===\<newline>'',
   Execute (Count_rows ''files''), Print ''Files processed: 2'',
   Execute (Select_limit [''file_path'', ''status''] ''files'' 5),
   Print ''Sample files:'', Print ''  - a.js [processed]'',
   Print ''  - b.js [pending]'',
   Print ''\<newline>==================================================\<newline>'',
   Execute (Count_rows ''pois''), Print ''POIs extracted: 6'',
   Execute (Group_count [''type''] ''pois''), Print ''POI types:'',
   Print ''  - None: 1'', Print ''  - class: 1'', Print ''  - function: 3'',
   Print ''  - variable: 1'',
   Execute
    (Select_limit
      [''file_path'', ''name'', ''type'', ''start_line'', ''end_line'']
      ''pois'' 5),
   Print ''\<newline>Sample POIs:'',
   Print ''  - a.js | main (function) | Lines 1-9'',
   Print ''  - a.js |  (class) | Lines 10-20'',
   Print ''  - a.js | None (function) | Lines 21-22'',
   Print ''  - b.js | f (None) | Lines 1-2'',
   Print ''  - b.js | g (function) | Lines 3-4'',
   Print ''\<newline>==================================================\<newline>'',
   Execute (Count_rows ''relationships''),
   Print ''Relationships discovered: 3'',
   Execute (Group_count [''type''] ''relationships''),
   Print ''Relationship types:'', Print ''  - calls: 2'',
   Print ''  - imports: 1'',
   Execute (Group_count [''status''] ''relationships''),
   Print ''\<newline>Relationship statuses:'', Print ''  - None: 1'',
   Print ''  - pending: 1'', Print ''  - validated: 1'',
   Execute
    (Count_where ''relationships'' (Eq_text ''status'' ''validated'')),
   Print ''\<newline>Validated relationships: 1'',
   Print ''\<newline>==================================================\<newline>'',
   Execute (Count_rows ''relationship_evidence''),
   Print ''Relationship evidence entries: 1'',
   Execute (Count_rows ''transactional_outbox''),
   Print ''Transactional outbox entries: 3'',
   Execute
    (Group_count [''event_type'', ''processed''] ''transactional_outbox''),
   Print ''Outbox status:'', Print ''  - poi-created [processed=0]: 2'',
   Print ''  - poi-created [processed=1]: 1'',
   Print ''\<newline>==================================================\<newline>'',
   Execute
    (Count_where ''pois'' (Or (Is_null ''name'') (Eq_text ''name'' []))),
   Execute
    (Count_where ''pois'' (Or (Is_null ''type'') (Eq_text ''type'' []))),
   Print ''POIs with empty names: 2'', Print ''POIs with empty types: 1'',
   Execute (Select_star_limit ''pois'' 1), Print ''\<newline>Sample POI full data:'',
   Print ''  id: 1'', Print ''  file_path: a.js'', Print ''  name: main'',
   Print ''  type: function'', Print ''  start_line: 1'',
   Print ''  end_line: 9'', Close],
  Inr ())"
  by code_simp

lemma sample_db_completes: "snd (analyze_database sample_db) = Inr ()"
  by (simp add: run_report_sample_db)

lemma sample_db_tables:
  "from_table sample_db ''files'' = Inr sample_files"
  "from_table sample_db ''pois'' = Inr sample_pois"
  "from_table sample_db ''relationships'' = Inr sample_relationships"
  "from_table sample_db ''transactional_outbox'' = Inr sample_outbox"
  by code_simp+

lemma sample_db_rows:
  "obj_rows sample_files \<noteq> []" "obj_rows sample_pois \<noteq> []"
  "obj_rows sample_relationships \<noteq> []" "obj_rows sample_outbox \<noteq> []"
  by (simp_all add: sample_files_def sample_pois_def sample_relationships_def sample_outbox_def
      new_table_def)

section \<open>The sample listings\<close>

text \<open>
  Claim C9. When the report runs to its end on a database whose \<open>files\<close> table has
  \<open>N > 0\<close> rows, it prints the total and then, under \<open>Sample files:\<close>, one line
  with file path and status for each of the first \<open>min N 5\<close> rows of the table, in the
  order of the table, up to the separator.
\<close>

theorem sample_files_listing:
  assumes "snd (analyze_database db) = Inr ()"
    and "from_table db ''files'' = Inr files" and "obj_rows files \<noteq> []"
  shows "(\<exists>pre post. fst (analyze_database db) =
            pre @
            [Execute (Count_rows ''files''),
             Print (''Files processed: '' @ nat_str (length (obj_rows files))),
             Execute (Select_limit [''file_path'', ''status''] ''files'' 5),
             Print ''Sample files:''] @
            map (\<lambda>r. Print (sample_file_line (column_value (obj_columns files) r ''file_path'')
                                             (column_value (obj_columns files) r ''status'')))
              (take 5 (obj_rows files)) @
            Print separator # post) \<and>
         length (take 5 (obj_rows files)) = min (length (obj_rows files)) 5"
proof -
  from analyze_database_success [OF assms(1)] obtain rest where
    ok: "snd (check_files db) = Inr ()" and
    tr: "fst (analyze_database db) =
          [Connect, Print ''=== DATABASE ANALYSIS ===\<newline>''] @ fst (check_files db) @
          Print separator # rest"
    by blast
  from count_rows_positive [OF assms(2,3)] have
    c: "engine db (Count_rows ''files'') = Inr (count_cursor (length (obj_rows files)))" and
    pos: "0 < length (obj_rows files)"
    by simp_all
  from check_files_answers [OF ok c pos] obtain cur where
    s: "engine db (Select_limit [''file_path'', ''status''] ''files'' 5) = Inr cur"
    by blast
  have "fst (check_files db) =
          [Execute (Count_rows ''files''),
           Print (''Files processed: '' @ nat_str (length (obj_rows files))),
           Execute (Select_limit [''file_path'', ''status''] ''files'' 5),
           Print ''Sample files:''] @
          map (\<lambda>r. Print (sample_file_line (column_value (obj_columns files) r ''file_path'')
                                           (column_value (obj_columns files) r ''status'')))
            (take 5 (obj_rows files))"
    by (simp add: check_files_positive [OF c pos s] select_limit_result [OF s assms(2)] comp_def)
  with tr show ?thesis
    by (intro conjI exI [of _ "[Connect, Print ''=== DATABASE ANALYSIS ===\<newline>'']"] exI [of _ rest])
       simp_all
qed

theorem sample_files_listing_witness:
  "snd (analyze_database sample_db) = Inr () \<and>
   from_table sample_db ''files'' = Inr sample_files \<and> obj_rows sample_files \<noteq> [] \<and>
   ((\<exists>pre post. fst (analyze_database sample_db) =
            pre @
            [Execute (Count_rows ''files''),
             Print (''Files processed: '' @ nat_str (length (obj_rows sample_files))),
             Execute (Select_limit [''file_path'', ''status''] ''files'' 5),
             Print ''Sample files:''] @
            map (\<lambda>r. Print (sample_file_line (column_value (obj_columns sample_files) r ''file_path'')
                                             (column_value (obj_columns sample_files) r ''status'')))
              (take 5 (obj_rows sample_files)) @
            Print separator # post) \<and>
         length (take 5 (obj_rows sample_files)) = min (length (obj_rows sample_files)) 5)"
  by (intro conjI sample_db_completes sample_db_tables(1) sample_db_rows(1)
        sample_files_listing [OF sample_db_completes sample_db_tables(1) sample_db_rows(1), THEN conjunct1]
        sample_files_listing [OF sample_db_completes sample_db_tables(1) sample_db_rows(1), THEN conjunct2])



section \<open>The data-quality counts\<close>



section \<open>The grouped breakdowns\<close>

lemma sum_grouped:
  assumes "\<And>k. k \<in> set keys \<Longrightarrow> length k = m"
  shows "(\<Sum>row\<leftarrow>grouped keys. count_of (row ! m)) = int (length keys)"
proof -
  let ?groups = "sort_key (map val_key) (remdups keys)"
  have "map (\<lambda>k. count_of ((k @ [IntV (int (count_list keys k))]) ! m)) ?groups
      = map (\<lambda>k. int (count_list keys k)) ?groups"
    by (rule map_cong) (simp_all add: assms nth_append count_of_def)
  then have "(\<Sum>k\<leftarrow>?groups. count_of ((k @ [IntV (int (count_list keys k))]) ! m))
      = (\<Sum>k\<leftarrow>?groups. int (count_list keys k))"
    by (rule arg_cong)
  moreover have "(\<Sum>row\<leftarrow>grouped keys. count_of (row ! m))
      = (\<Sum>k\<leftarrow>?groups. count_of ((k @ [IntV (int (count_list keys k))]) ! m))"
    by (simp add: grouped_def comp_def)
  ultimately show ?thesis
    by (simp only: sum_counts_sorted)
qed

lemma sum_breakdown:
  "(\<Sum>row\<leftarrow>breakdown ob ks. count_of (row ! length ks)) = int (length (obj_rows ob))"
proof -
  have "(\<Sum>row\<leftarrow>breakdown ob ks. count_of (row ! length ks)) =
          int (length (map (\<lambda>r. map (column_value (obj_columns ob) r) ks) (obj_rows ob)))"
    unfolding breakdown_def by (rule sum_grouped) auto
  then show ?thesis by simp
qed

lemma group_count_breakdown:
  "engine db (Group_count ks t) = Inr cur \<Longrightarrow> from_table db t = Inr ob \<Longrightarrow>
     fetchall cur = breakdown ob ks"
  by (simp add: group_count_result breakdown_def)

text \<open>
  Claim C5. When the report runs to its end, each breakdown it prints (points of interest by
  type, relationships by type and by status, outbox entries by event type and processed
  flag) is the list of the groups of the table, one line a group, and the counts of the
  groups add up to the number of rows of the table.
\<close>

theorem grouped_counts_sum_to_total:
  assumes "snd (analyze_database db) = Inr ()" and "from_table db t = Inr ob"
    and "obj_rows ob \<noteq> []"
  shows
    "(t = ''pois'' \<longrightarrow>
        (\<exists>pre post. fst (analyze_database db) =
           pre @ [Execute (Group_count [''type''] ''pois''), Print ''POI types:''] @
           map (\<lambda>row. Print (group_line (row ! 0) (row ! 1))) (breakdown ob [''type'']) @
           Execute (Select_limit [''file_path'', ''name'', ''type'', ''start_line'', ''end_line''] ''pois'' 5) # post) \<and>
        (\<Sum>row\<leftarrow>breakdown ob [''type'']. count_of (row ! 1)) = int (length (obj_rows ob))) \<and>
     (t = ''relationships'' \<longrightarrow>
        (\<exists>pre post. fst (analyze_database db) =
           pre @ [Execute (Group_count [''type''] ''relationships''), Print ''Relationship types:''] @
           map (\<lambda>row. Print (group_line (row ! 0) (row ! 1))) (breakdown ob [''type'']) @
           Execute (Group_count [''status''] ''relationships'') # post) \<and>
        (\<Sum>row\<leftarrow>breakdown ob [''type'']. count_of (row ! 1)) = int (length (obj_rows ob)) \<and>
        (\<exists>pre post. fst (analyze_database db) =
           pre @ [Execute (Group_count [''status''] ''relationships''), Print ''\<newline>Relationship statuses:''] @
           map (\<lambda>row. Print (group_line (row ! 0) (row ! 1))) (breakdown ob [''status'']) @
           Execute (Count_where ''relationships'' (Eq_text ''status'' ''validated'')) # post) \<and>
        (\<Sum>row\<leftarrow>breakdown ob [''status'']. count_of (row ! 1)) = int (length (obj_rows ob))) \<and>
     (t = ''transactional_outbox'' \<longrightarrow>
        (\<exists>pre post. fst (analyze_database db) =
           pre @ [Execute (Group_count [''event_type'', ''processed''] ''transactional_outbox''),
                  Print ''Outbox status:''] @
           map (\<lambda>row. Print (outbox_line (row ! 0) (row ! 1) (row ! 2)))
             (breakdown ob [''event_type'', ''processed'']) @
           Print separator # post) \<and>
        (\<Sum>row\<leftarrow>breakdown ob [''event_type'', ''processed'']. count_of (row ! 2)) =
           int (length (obj_rows ob)))"
proof -
  from analyze_database_success [OF assms(1)] obtain poi_count where
    ok: "snd (check_pois db) = Inr poi_count"
      "snd (check_relationships db) = Inr ()" "snd (check_outbox db) = Inr ()" and
    tr: "fst (analyze_database db) =
       [Connect, Print ''=== DATABASE ANALYSIS ===\<newline>''] @ fst (check_files db) @
       Print separator # fst (check_pois db) @
       Print separator # fst (check_relationships db) @
       Print separator # fst (check_evidence db) @ fst (check_outbox db) @
       Print separator # fst (check_poi_data db poi_count) @ [Close]"
    by blast
  let ?n = "length (obj_rows ob)"
  have sums:
    "(\<Sum>row\<leftarrow>breakdown ob [''type'']. count_of (row ! 1)) = int ?n"
    "(\<Sum>row\<leftarrow>breakdown ob [''status'']. count_of (row ! 1)) = int ?n"
    "(\<Sum>row\<leftarrow>breakdown ob [''event_type'', ''processed'']. count_of (row ! 2)) = int ?n"
    using sum_breakdown [where ob = ob and ks = "[''type'']"]
      sum_breakdown [where ob = ob and ks = "[''status'']"]
      sum_breakdown [where ob = ob and ks = "[''event_type'', ''processed'']"]
    by (simp_all add: numeral_2_eq_2)
  have pois: ?thesis if t: "t = ''pois''"
  proof -
    from count_rows_positive [OF assms(2,3)] t have
      c: "engine db (Count_rows ''pois'') = Inr (count_cursor ?n)" and pos: "0 < ?n"
      by simp_all
    from check_pois_answers [OF ok(1) c pos] obtain g s where
      gs: "engine db (Group_count [''type''] ''pois'') = Inr g"
        "engine db (Select_limit [''file_path'', ''name'', ''type'', ''start_line'', ''end_line''] ''pois'' 5) = Inr s"
      by blast
    have g: "fetchall g = breakdown ob [''type'']"
      using group_count_breakdown [OF gs(1)] assms(2) t by simp
    have "\<exists>pre post. fst (analyze_database db) =
           pre @ [Execute (Group_count [''type''] ''pois''), Print ''POI types:''] @
           map (\<lambda>row. Print (group_line (row ! 0) (row ! 1))) (breakdown ob [''type'']) @
           Execute (Select_limit [''file_path'', ''name'', ''type'', ''start_line'', ''end_line''] ''pois'' 5) # post"
      by (rule exI [of _ "[Connect, Print ''=== DATABASE ANALYSIS ===\<newline>''] @
            fst (check_files db) @
            [Print separator, Execute (Count_rows ''pois''), Print (''POIs extracted: '' @ nat_str ?n)]"])
         (simp add: tr check_pois_positive [OF c pos gs] g)
    with sums t show ?thesis by simp
  qed
  have rels: ?thesis if t: "t = ''relationships''"
  proof -
    from count_rows_positive [OF assms(2,3)] t have
      c: "engine db (Count_rows ''relationships'') = Inr (count_cursor ?n)" and pos: "0 < ?n"
      by simp_all
    from check_relationships_answers [OF ok(2) c pos] obtain g1 g2 k where
      gs: "engine db (Group_count [''type''] ''relationships'') = Inr g1"
        "engine db (Group_count [''status''] ''relationships'') = Inr g2"
        "engine db (Count_where ''relationships'' (Eq_text ''status'' ''validated'')) = Inr (count_cursor k)"
      by blast
    have g1: "fetchall g1 = breakdown ob [''type'']"
      using group_count_breakdown [OF gs(1)] assms(2) t by simp
    have g2: "fetchall g2 = breakdown ob [''status'']"
      using group_count_breakdown [OF gs(2)] assms(2) t by simp
    have 1: "\<exists>pre post. fst (analyze_database db) =
           pre @ [Execute (Group_count [''type''] ''relationships''), Print ''Relationship types:''] @
           map (\<lambda>row. Print (group_line (row ! 0) (row ! 1))) (breakdown ob [''type'']) @
           Execute (Group_count [''status''] ''relationships'') # post"
      by (rule exI [of _ "[Connect, Print ''=== DATABASE ANALYSIS ===\<newline>''] @
            fst (check_files db) @ Print separator # fst (check_pois db) @
            [Print separator, Execute (Count_rows ''relationships''),
             Print (''Relationships discovered: '' @ nat_str ?n)]"])
         (simp add: tr check_relationships_positive [OF c pos gs] g1 g2)
    have 2: "\<exists>pre post. fst (analyze_database db) =
           pre @ [Execute (Group_count [''status''] ''relationships''), Print ''\<newline>Relationship statuses:''] @
           map (\<lambda>row. Print (group_line (row ! 0) (row ! 1))) (breakdown ob [''status'']) @
           Execute (Count_where ''relationships'' (Eq_text ''status'' ''validated'')) # post"
      by (rule exI [of _ "[Connect, Print ''=== DATABASE ANALYSIS ===\<newline>''] @
            fst (check_files db) @ Print separator # fst (check_pois db) @
            [Print separator, Execute (Count_rows ''relationships''),
             Print (''Relationships discovered: '' @ nat_str ?n),
             Execute (Group_count [''type''] ''relationships''), Print ''Relationship types:''] @
            map (\<lambda>row. Print (group_line (row ! 0) (row ! 1))) (breakdown ob [''type''])"])
         (simp add: tr check_relationships_positive [OF c pos gs] g1 g2)
    from 1 2 sums t show ?thesis by simp
  qed
  have outbox: ?thesis if t: "t = ''transactional_outbox''"
  proof -
    from count_rows_positive [OF assms(2,3)] t have
      c: "engine db (Count_rows ''transactional_outbox'') = Inr (count_cursor ?n)" and pos: "0 < ?n"
      by simp_all
    from check_outbox_answers [OF ok(3) c pos] obtain g where
      gs: "engine db (Group_count [''event_type'', ''processed''] ''transactional_outbox'') = Inr g"
      by blast
    have g: "fetchall g = breakdown ob [''event_type'', ''processed'']"
      using group_count_breakdown [OF gs(1)] assms(2) t by simp
    have "\<exists>pre post. fst (analyze_database db) =
           pre @ [Execute (Group_count [''event_type'', ''processed''] ''transactional_outbox''),
                  Print ''Outbox status:''] @
           map (\<lambda>row. Print (outbox_line (row ! 0) (row ! 1) (row ! 2)))
             (breakdown ob [''event_type'', ''processed'']) @
           Print separator # post"
      by (rule exI [of _ "[Connect, Print ''=== DATABASE ANALYSIS ===\<newline>''] @
            fst (check_files db) @ Print separator # fst (check_pois db) @
            Print separator # fst (check_relationships db) @
            Print separator # fst (check_evidence db) @
            [Execute (Count_rows ''transactional_outbox''),
             Print (''Transactional outbox entries: '' @ nat_str ?n)]"])
         (simp add: tr check_outbox_positive [OF c pos gs] g)
    with sums t show ?thesis by simp
  qed
  show ?thesis
  proof (cases "t = ''pois''")
    case True
    then show ?thesis by (rule pois)
  next
    case not_pois: False
    show ?thesis
    proof (cases "t = ''relationships''")
      case True
      then show ?thesis by (rule rels)
    next
      case not_rels: False
      show ?thesis
      proof (cases "t = ''transactional_outbox''")
        case True
        then show ?thesis by (rule outbox)
      next
        case False
        with not_pois not_rels show ?thesis by simp
      qed
    qed
  qed
qed

theorem grouped_counts_sum_to_total_witness:
  "snd (analyze_database sample_db) = Inr () \<and>
   from_table sample_db ''pois'' = Inr sample_pois \<and> obj_rows sample_pois \<noteq> [] \<and>
   from_table sample_db ''relationships'' = Inr sample_relationships \<and>
   obj_rows sample_relationships \<noteq> [] \<and>
   from_table sample_db ''transactional_outbox'' = Inr sample_outbox \<and>
   obj_rows sample_outbox \<noteq> [] \<and>
   ((\<exists>pre post. fst (analyze_database sample_db) =
           pre @ [Execute (Group_count [''type''] ''pois''), Print ''POI types:''] @
           map (\<lambda>row. Print (group_line (row ! 0) (row ! 1))) (breakdown sample_pois [''type'']) @
           Execute (Select_limit [''file_path'', ''name'', ''type'', ''start_line'', ''end_line''] ''pois'' 5) # post) \<and>
        (\<Sum>row\<leftarrow>breakdown sample_pois [''type'']. count_of (row ! 1)) = int (length (obj_rows sample_pois))) \<and>
   ((\<exists>pre post. fst (analyze_database sample_db) =
           pre @ [Execute (Group_count [''type''] ''relationships''), Print ''Relationship types:''] @
           map (\<lambda>row. Print (group_line (row ! 0) (row ! 1))) (breakdown sample_relationships [''type'']) @
           Execute (Group_count [''status''] ''relationships'') # post) \<and>
        (\<Sum>row\<leftarrow>breakdown sample_relationships [''type'']. count_of (row ! 1)) = int (length (obj_rows sample_relationships)) \<and>
        (\<exists>pre post. fst (analyze_database sample_db) =
           pre @ [Execute (Group_count [''status''] ''relationships''), Print ''\<newline>Relationship statuses:''] @
           map (\<lambda>row. Print (group_line (row ! 0) (row ! 1))) (breakdown sample_relationships [''status'']) @
           Execute (Count_where ''relationships'' (Eq_text ''status'' ''validated'')) # post) \<and>
        (\<Sum>row\<leftarrow>breakdown sample_relationships [''status'']. count_of (row ! 1)) = int (length (obj_rows sample_relationships))) \<and>
   ((\<exists>pre post. fst (analyze_database sample_db) =
           pre @ [Execute (Group_count [''event_type'', ''processed''] ''transactional_outbox''),
                  Print ''Outbox status:''] @
           map (\<lambda>row. Print (outbox_line (row ! 0) (row ! 1) (row ! 2)))
             (breakdown sample_outbox [''event_type'', ''processed'']) @
           Print separator # post) \<and>
        (\<Sum>row\<leftarrow>breakdown sample_outbox [''event_type'', ''processed'']. count_of (row ! 2)) =
           int (length (obj_rows sample_outbox)))"
  by (intro conjI sample_db_completes sample_db_tables sample_db_rows
        grouped_counts_sum_to_total [OF sample_db_completes sample_db_tables(2) sample_db_rows(2),
          THEN conjunct1, THEN mp, OF refl]
        grouped_counts_sum_to_total [OF sample_db_completes sample_db_tables(3) sample_db_rows(3),
          THEN conjunct2, THEN conjunct1, THEN mp, OF refl]
        grouped_counts_sum_to_total [OF sample_db_completes sample_db_tables(4) sample_db_rows(4),
          THEN conjunct2, THEN conjunct2, THEN mp, OF refl])

section \<open>The guards on the counts\<close>

lemma section_statements:
  "set (executed (fst (check_files db))) \<subseteq> files_statements"
  "set (executed (fst (check_pois db))) \<subseteq> pois_statements"
  "set (executed (fst (check_relationships db))) \<subseteq> relationships_statements"
  "set (executed (fst (check_evidence db))) \<subseteq> {Count_rows ''relationship_evidence''}"
  "set (executed (fst (check_outbox db))) \<subseteq> outbox_statements"
  "set (executed (fst (check_poi_data db pc))) \<subseteq> poi_data_statements"
  using runs_only_check_files runs_only_check_pois runs_only_check_relationships
    runs_only_check_evidence runs_only_check_outbox runs_only_check_poi_data
  by (simp_all add: runs_only_def)

lemma analyze_database_executed:
  assumes "q \<in> set (executed (fst (analyze_database db)))"
  shows "q \<in> set (executed (fst (check_files db))) \<or>
         q \<in> set (executed (fst (check_pois db))) \<or>
         q \<in> set (executed (fst (check_relationships db))) \<or>
         q \<in> set (executed (fst (check_evidence db))) \<or>
         q \<in> set (executed (fst (check_outbox db))) \<or>
         (\<exists>pc. snd (check_pois db) = Inr pc \<and> q \<in> set (executed (fst (check_poi_data db pc))))"
  using assms by (auto simp: analyze_database_trace split: sum.splits)

lemmas statement_sets =
  files_statements_def pois_statements_def relationships_statements_def outbox_statements_def
  poi_data_statements_def

lemma executed_in: "Execute q \<in> set tr \<Longrightarrow> set (executed tr) \<subseteq> S \<Longrightarrow> q \<in> S"
  by (auto simp: set_executed)

lemma trace_stops:
  "snd (check_files db) = Inl e \<Longrightarrow>
     fst (analyze_database db) =
       [Connect, Print ''=== DATABASE ANALYSIS ===\<newline>''] @ fst (check_files db)"
  "snd (check_files db) = Inr u \<Longrightarrow> snd (check_pois db) = Inl e \<Longrightarrow>
     fst (analyze_database db) =
       [Connect, Print ''=== DATABASE ANALYSIS ===\<newline>''] @ fst (check_files db) @
       Print separator # fst (check_pois db)"
  "snd (check_files db) = Inr u \<Longrightarrow> snd (check_pois db) = Inr pc \<Longrightarrow>
   snd (check_relationships db) = Inl e \<Longrightarrow>
     fst (analyze_database db) =
       [Connect, Print ''=== DATABASE ANALYSIS ===\<newline>''] @ fst (check_files db) @
       Print separator # fst (check_pois db) @ Print separator # fst (check_relationships db)"
  "snd (check_files db) = Inr u \<Longrightarrow> snd (check_pois db) = Inr pc \<Longrightarrow>
   snd (check_relationships db) = Inr u' \<Longrightarrow> snd (check_evidence db) = Inl e \<Longrightarrow>
     fst (analyze_database db) =
       [Connect, Print ''=== DATABASE ANALYSIS ===\<newline>''] @ fst (check_files db) @
       Print separator # fst (check_pois db) @ Print separator # fst (check_relationships db) @
       Print separator # fst (check_evidence db)"
  by (simp_all add: analyze_database_trace)

lemma reached_pois:
  assumes "Execute (Count_rows ''pois'') \<in> set (fst (analyze_database db))"
  shows "\<exists>u. snd (check_files db) = Inr u"
proof (cases "snd (check_files db)")
  case (Inl e)
  with assms have "Execute (Count_rows ''pois'') \<in> set (fst (check_files db))"
    by (simp add: trace_stops(1))
  from executed_in [OF this section_statements(1)] show ?thesis
    by (simp add: statement_sets)
qed simp

lemma reached_relationships:
  assumes "Execute (Count_rows ''relationships'') \<in> set (fst (analyze_database db))"
  shows "(\<exists>u. snd (check_files db) = Inr u) \<and> (\<exists>pc. snd (check_pois db) = Inr pc)"
proof -
  have 1: "\<not> Execute (Count_rows ''relationships'') \<in> set (fst (check_files db))"
    using executed_in [OF _ section_statements(1)] by (fastforce simp: statement_sets)
  have 2: "\<not> Execute (Count_rows ''relationships'') \<in> set (fst (check_pois db))"
    using executed_in [OF _ section_statements(2)] by (fastforce simp: statement_sets)
  show ?thesis
  proof (cases "snd (check_files db)")
    case (Inl e)
    with assms 1 show ?thesis by (simp add: trace_stops(1))
  next
    case f: (Inr u)
    show ?thesis
    proof (cases "snd (check_pois db)")
      case (Inl e)
      with assms 1 2 f show ?thesis by (simp add: trace_stops(2) separator_def)
    qed (simp add: f)
  qed
qed

lemma reached_evidence:
  assumes "Execute (Count_rows ''relationship_evidence'') \<in> set (fst (analyze_database db))"
  shows "(\<exists>u. snd (check_files db) = Inr u) \<and> (\<exists>pc. snd (check_pois db) = Inr pc) \<and>
         (\<exists>u. snd (check_relationships db) = Inr u)"
proof -
  have 1: "\<not> Execute (Count_rows ''relationship_evidence'') \<in> set (fst (check_files db))"
    using executed_in [OF _ section_statements(1)] by (fastforce simp: statement_sets)
  have 2: "\<not> Execute (Count_rows ''relationship_evidence'') \<in> set (fst (check_pois db))"
    using executed_in [OF _ section_statements(2)] by (fastforce simp: statement_sets)
  have 3: "\<not> Execute (Count_rows ''relationship_evidence'') \<in> set (fst (check_relationships db))"
    using executed_in [OF _ section_statements(3)] by (fastforce simp: statement_sets)
  show ?thesis
  proof (cases "snd (check_files db)")
    case (Inl e)
    with assms 1 show ?thesis by (simp add: trace_stops(1))
  next
    case f: (Inr u)
    show ?thesis
    proof (cases "snd (check_pois db)")
      case (Inl e)
      with assms 1 2 f show ?thesis by (simp add: trace_stops(2))
    next
      case p: (Inr pc)
      show ?thesis
      proof (cases "snd (check_relationships db)")
        case (Inl e)
        with assms 1 2 3 f p show ?thesis by (simp add: trace_stops(3))
      qed (simp add: f p)
    qed
  qed
qed

lemma reached_outbox:
  assumes "Execute (Count_rows ''transactional_outbox'') \<in> set (fst (analyze_database db))"
  shows "(\<exists>u. snd (check_files db) = Inr u) \<and> (\<exists>pc. snd (check_pois db) = Inr pc) \<and>
         (\<exists>u. snd (check_relationships db) = Inr u) \<and> (\<exists>u. snd (check_evidence db) = Inr u)"
proof -
  have 1: "\<not> Execute (Count_rows ''transactional_outbox'') \<in> set (fst (check_files db))"
    using executed_in [OF _ section_statements(1)] by (fastforce simp: statement_sets)
  have 2: "\<not> Execute (Count_rows ''transactional_outbox'') \<in> set (fst (check_pois db))"
    using executed_in [OF _ section_statements(2)] by (fastforce simp: statement_sets)
  have 3: "\<not> Execute (Count_rows ''transactional_outbox'') \<in> set (fst (check_relationships db))"
    using executed_in [OF _ section_statements(3)] by (fastforce simp: statement_sets)
  have 4: "\<not> Execute (Count_rows ''transactional_outbox'') \<in> set (fst (check_evidence db))"
    using executed_in [OF _ section_statements(4)] by fastforce
  show ?thesis
  proof (cases "snd (check_files db)")
    case (Inl e)
    with assms 1 show ?thesis by (simp add: trace_stops(1))
  next
    case f: (Inr u)
    show ?thesis
    proof (cases "snd (check_pois db)")
      case (Inl e)
      with assms 1 2 f show ?thesis by (simp add: trace_stops(2))
    next
      case p: (Inr pc)
      show ?thesis
      proof (cases "snd (check_relationships db)")
        case (Inl e)
        with assms 1 2 3 f p show ?thesis by (simp add: trace_stops(3))
      next
        case r: (Inr u')
        show ?thesis
        proof (cases "snd (check_evidence db)")
          case (Inl e)
          with assms 1 2 3 4 f p r show ?thesis by (simp add: trace_stops(4))
        qed (simp add: f p r)
      qed
    qed
  qed
qed

lemma check_outbox_head:
  "\<exists>rest. fst (check_outbox db) = Execute (Count_rows ''transactional_outbox'') # rest"
  by (simp add: check_outbox_def fst_bnd execute_def split: sum.splits)

lemma zero_files:
  assumes "engine db (Count_rows ''files'') = Inr (count_cursor 0)"
  shows "(\<forall>q \<in> set (detail_queries ''files''). Execute q \<notin> set (fst (analyze_database db))) \<and>
         (\<exists>pre post. fst (analyze_database db) =
            pre @ Execute (Count_rows ''files'') # Print (count_label ''files'' @ ''0'') #
            after_count ''files'' # post)"
proof
  show "\<forall>q \<in> set (detail_queries ''files''). Execute q \<notin> set (fst (analyze_database db))"
    using section_statements analyze_database_executed [of _ db]
    by (fastforce simp: set_executed [symmetric] detail_queries_def check_files_zero [OF assms]
        statement_sets)
  show "\<exists>pre post. fst (analyze_database db) =
          pre @ Execute (Count_rows ''files'') # Print (count_label ''files'' @ ''0'') #
          after_count ''files'' # post"
    by - (rule exI [of _ "[Connect, Print ''=== DATABASE ANALYSIS ===\<newline>'']"],
       simp add: analyze_database_trace check_files_zero [OF assms] count_label_def after_count_def)
qed

lemma zero_pois:
  assumes "engine db (Count_rows ''pois'') = Inr (count_cursor 0)"
    and "Execute (Count_rows ''pois'') \<in> set (fst (analyze_database db))"
  shows "(\<forall>q \<in> set (detail_queries ''pois''). Execute q \<notin> set (fst (analyze_database db))) \<and>
         (\<exists>pre post. fst (analyze_database db) =
            pre @ Execute (Count_rows ''pois'') # Print (count_label ''pois'' @ ''0'') #
            after_count ''pois'' # post)"
proof
  show "\<forall>q \<in> set (detail_queries ''pois''). Execute q \<notin> set (fst (analyze_database db))"
    using section_statements analyze_database_executed [of _ db]
    by (fastforce simp: set_executed [symmetric] detail_queries_def check_pois_zero [OF assms(1)]
        check_poi_data_zero statement_sets)
  from reached_pois [OF assms(2)] obtain u where "snd (check_files db) = Inr u" ..
  then show "\<exists>pre post. fst (analyze_database db) =
          pre @ Execute (Count_rows ''pois'') # Print (count_label ''pois'' @ ''0'') #
          after_count ''pois'' # post"
    by - (rule exI [of _ "[Connect, Print ''=== DATABASE ANALYSIS ===\<newline>''] @
          fst (check_files db) @ [Print separator]"],
       simp add: analyze_database_trace check_pois_zero [OF assms(1)] count_label_def
          after_count_def)
qed

lemma zero_relationships:
  assumes "engine db (Count_rows ''relationships'') = Inr (count_cursor 0)"
    and "Execute (Count_rows ''relationships'') \<in> set (fst (analyze_database db))"
  shows "(\<forall>q \<in> set (detail_queries ''relationships''). Execute q \<notin> set (fst (analyze_database db))) \<and>
         (\<exists>pre post. fst (analyze_database db) =
            pre @ Execute (Count_rows ''relationships'') #
            Print (count_label ''relationships'' @ ''0'') # after_count ''relationships'' # post)"
proof
  show "\<forall>q \<in> set (detail_queries ''relationships''). Execute q \<notin> set (fst (analyze_database db))"
    using section_statements analyze_database_executed [of _ db]
    by (fastforce simp: set_executed [symmetric] detail_queries_def
        check_relationships_zero [OF assms(1)] statement_sets)
  from reached_relationships [OF assms(2)] obtain u pc where
    "snd (check_files db) = Inr u" "snd (check_pois db) = Inr pc" by blast
  then show "\<exists>pre post. fst (analyze_database db) =
          pre @ Execute (Count_rows ''relationships'') #
          Print (count_label ''relationships'' @ ''0'') # after_count ''relationships'' # post"
    by - (rule exI [of _ "[Connect, Print ''=== DATABASE ANALYSIS ===\<newline>''] @
          fst (check_files db) @ Print separator # fst (check_pois db) @ [Print separator]"],
       simp add: analyze_database_trace check_relationships_zero [OF assms(1)] count_label_def
          after_count_def)
qed

lemma count_evidence:
  assumes "engine db (Count_rows ''relationship_evidence'') = Inr (count_cursor n)"
    and "Execute (Count_rows ''relationship_evidence'') \<in> set (fst (analyze_database db))"
  shows "\<exists>pre post. fst (analyze_database db) =
            pre @ Execute (Count_rows ''relationship_evidence'') #
            Print (count_label ''relationship_evidence'' @ nat_str n) #
            after_count ''relationship_evidence'' # post"
proof -
  from reached_evidence [OF assms(2)] obtain u pc u' where
    "snd (check_files db) = Inr u" "snd (check_pois db) = Inr pc"
    "snd (check_relationships db) = Inr u'" by blast
  moreover obtain rest where
    "fst (check_outbox db) = Execute (Count_rows ''transactional_outbox'') # rest"
    using check_outbox_head by blast
  ultimately show ?thesis
    by - (rule exI [of _ "[Connect, Print ''=== DATABASE ANALYSIS ===\<newline>''] @
          fst (check_files db) @ Print separator # fst (check_pois db) @
          Print separator # fst (check_relationships db) @ [Print separator]"],
       simp add: analyze_database_trace check_evidence_count [OF assms(1)] count_label_def
          after_count_def)
qed

lemma zero_outbox:
  assumes "engine db (Count_rows ''transactional_outbox'') = Inr (count_cursor 0)"
    and "Execute (Count_rows ''transactional_outbox'') \<in> set (fst (analyze_database db))"
  shows "(\<forall>q \<in> set (detail_queries ''transactional_outbox'').
            Execute q \<notin> set (fst (analyze_database db))) \<and>
         (\<exists>pre post. fst (analyze_database db) =
            pre @ Execute (Count_rows ''transactional_outbox'') #
            Print (count_label ''transactional_outbox'' @ ''0'') #
            after_count ''transactional_outbox'' # post)"
proof
  show "\<forall>q \<in> set (detail_queries ''transactional_outbox'').
          Execute q \<notin> set (fst (analyze_database db))"
    using section_statements analyze_database_executed [of _ db]
    by (fastforce simp: set_executed [symmetric] detail_queries_def
        check_outbox_zero [OF assms(1)] statement_sets)
  from reached_outbox [OF assms(2)] obtain u pc u' u'' where
    "snd (check_files db) = Inr u" "snd (check_pois db) = Inr pc"
    "snd (check_relationships db) = Inr u'" "snd (check_evidence db) = Inr u''" by blast
  then show "\<exists>pre post. fst (analyze_database db) =
          pre @ Execute (Count_rows ''transactional_outbox'') #
          Print (count_label ''transactional_outbox'' @ ''0'') #
          after_count ''transactional_outbox'' # post"
    by - (rule exI [of _ "[Connect, Print ''=== DATABASE ANALYSIS ===\<newline>''] @
          fst (check_files db) @ Print separator # fst (check_pois db) @
          Print separator # fst (check_relationships db) @
          Print separator # fst (check_evidence db)"],
       simp add: analyze_database_trace check_outbox_zero [OF assms(1)] count_label_def
          after_count_def)
qed

lemma named_tables_disj:
  "t \<in> set named_tables \<Longrightarrow>
     t = ''files'' \<or> t = ''pois'' \<or> t = ''relationships'' \<or> t = ''relationship_evidence'' \<or>
     t = ''transactional_outbox''"
  unfolding named_tables_def by (simp only: list.set insert_iff empty_iff simp_thms)

lemma named_tables_cases:
  assumes "t \<in> set named_tables"
  obtains "t = ''files''" | "t = ''pois''" | "t = ''relationships''"
    | "t = ''relationship_evidence''" | "t = ''transactional_outbox''"
  using named_tables_disj [OF assms] by (elim disjE)

lemma positive_details:
  assumes "snd (analyze_database db) = Inr ()" and "t \<in> set named_tables"
    and "engine db (Count_rows t) = Inr (count_cursor n)" and "0 < n"
  shows "\<forall>q \<in> set (detail_queries t). Execute q \<in> set (fst (analyze_database db))"
proof -
  from analyze_database_success [OF assms(1)] obtain poi_count where
    ok: "snd (check_files db) = Inr ()" "snd (check_pois db) = Inr poi_count"
      "snd (check_relationships db) = Inr ()" "snd (check_outbox db) = Inr ()"
      "snd (check_poi_data db poi_count) = Inr ()" and
    tr: "fst (analyze_database db) =
       [Connect, Print ''=== DATABASE ANALYSIS ===\<newline>''] @ fst (check_files db) @
       Print separator # fst (check_pois db) @
       Print separator # fst (check_relationships db) @
       Print separator # fst (check_evidence db) @ fst (check_outbox db) @
       Print separator # fst (check_poi_data db poi_count) @ [Close]"
    by blast
  from assms(2) show ?thesis
  proof (cases rule: named_tables_cases)
    case 1
    with assms(3) have c: "engine db (Count_rows ''files'') = Inr (count_cursor n)" by simp
    from check_files_answers [OF ok(1) c assms(4)] obtain cur where
      "engine db (Select_limit [''file_path'', ''status''] ''files'' 5) = Inr cur" by blast
    from check_files_positive [OF c assms(4) this] show ?thesis
      by (simp add: 1 tr detail_queries_def)
  next
    case 2
    with assms(3) have c: "engine db (Count_rows ''pois'') = Inr (count_cursor n)" by simp
    from check_pois_answers [OF ok(2) c assms(4)] obtain g s where
      gs: "engine db (Group_count [''type''] ''pois'') = Inr g"
        "engine db (Select_limit [''file_path'', ''name'', ''type'', ''start_line'', ''end_line''] ''pois'' 5) = Inr s"
      by blast
    note p = check_pois_positive [OF c assms(4) gs]
    with ok(2) have pc: "poi_count = IntV (int n)" by simp
    from check_poi_data_answers [OF ok(5) [unfolded pc] assms(4)] obtain a b st where
      abs: "engine db (Count_where ''pois'' (empty_or_null ''name'')) = Inr (count_cursor a)"
        "engine db (Count_where ''pois'' (empty_or_null ''type'')) = Inr (count_cursor b)"
        "engine db (Select_star_limit ''pois'' 1) = Inr st"
      by blast
    from check_poi_data_positive [OF assms(4) abs] obtain post where
      "fst (check_poi_data db poi_count) =
         [Execute (Count_where ''pois'' (empty_or_null ''name'')),
          Execute (Count_where ''pois'' (empty_or_null ''type'')),
          Print (''POIs with empty names: '' @ nat_str a),
          Print (''POIs with empty types: '' @ nat_str b),
          Execute (Select_star_limit ''pois'' 1)] @ post"
      unfolding pc by blast
    with p show ?thesis
      by (simp add: 2 tr detail_queries_def)
  next
    case 3
    with assms(3) have c: "engine db (Count_rows ''relationships'') = Inr (count_cursor n)" by simp
    from check_relationships_answers [OF ok(3) c assms(4)] obtain g1 g2 k where
      "engine db (Group_count [''type''] ''relationships'') = Inr g1"
      "engine db (Group_count [''status''] ''relationships'') = Inr g2"
      "engine db (Count_where ''relationships'' (Eq_text ''status'' ''validated'')) = Inr (count_cursor k)"
      by blast
    from check_relationships_positive [OF c assms(4) this] show ?thesis
      by (simp add: 3 tr detail_queries_def)
  next
    case 4
    then show ?thesis by (simp add: detail_queries_def)
  next
    case 5
    with assms(3) have c: "engine db (Count_rows ''transactional_outbox'') = Inr (count_cursor n)"
      by simp
    from check_outbox_answers [OF ok(4) c assms(4)] obtain g where
      "engine db (Group_count [''event_type'', ''processed''] ''transactional_outbox'') = Inr g"
      by blast
    from check_outbox_positive [OF c assms(4) this] show ?thesis
      by (simp add: 5 tr detail_queries_def)
  qed
qed


lemma pois_counts:
  "engine empty_db (Count_rows ''pois'') = Inr (count_cursor 0)"
  "engine sample_db (Count_rows ''pois'') = Inr (count_cursor 6)"
  by code_simp+


section \<open>Databases with the expected tables\<close>

text \<open>
  The theorems about the content of the report are stated for runs that reach their end.
  Every database with the five tables and the columns the report names gives such a run.
\<close>

lemma resolve_columns_found:
  "list_all (\<lambda>c. find_column cols c 0 \<noteq> None) cs \<Longrightarrow> \<exists>ics. resolve_columns cols cs = Inr ics"
  by (induction cs) (auto simp: bind_err_def)

lemma has_columns_engine:
  assumes "has_columns db t cs"
  shows "\<not> isl (engine db (Count_rows t))"
    and "set ks \<subseteq> set cs \<Longrightarrow> \<not> isl (engine db (Select_limit ks t n))"
    and "set ks \<subseteq> set cs \<Longrightarrow> \<not> isl (engine db (Group_count ks t))"
    and "set (cond_columns w) \<subseteq> set cs \<Longrightarrow> \<not> isl (engine db (Count_where t w))"
    and "\<not> isl (engine db (Select_star_limit t n))"
proof -
  from assms obtain ob where ob: "from_table db t = Inr ob"
    and cs: "list_all (\<lambda>c. find_column (obj_columns ob) c 0 \<noteq> None) cs"
    by (auto simp: has_columns_def split: sum.splits)
  have sub: "\<exists>ics. resolve_columns (obj_columns ob) ks = Inr ics" if "set ks \<subseteq> set cs" for ks
    using that cs by (intro resolve_columns_found) (auto simp: list_all_iff)
  show "\<not> isl (engine db (Count_rows t))" "\<not> isl (engine db (Select_star_limit t n))"
    by (simp_all add: engine.simps ob bind_err_def)
  show "\<not> isl (engine db (Select_limit ks t n))" if "set ks \<subseteq> set cs"
    using sub [OF that] by (auto simp: engine.simps ob bind_err_def)
  show "\<not> isl (engine db (Group_count ks t))" if "set ks \<subseteq> set cs"
    using sub [OF that] by (auto simp: engine.simps ob bind_err_def)
  show "\<not> isl (engine db (Count_where t w))" if "set (cond_columns w) \<subseteq> set cs"
    using sub [OF that] by (auto simp: engine.simps ob bind_err_def)
qed

lemma schema_statements_succeed:
  assumes "has_schema db"
    and "q \<in> files_statements \<union> pois_statements \<union> relationships_statements \<union>
           {Count_rows ''relationship_evidence''} \<union> outbox_statements \<union> poi_data_statements"
  shows "\<not> isl (engine db q)"
proof -
  from assms(1) have
    f: "has_columns db ''files'' [''file_path'', ''status'']" and
    p: "has_columns db ''pois'' [''file_path'', ''name'', ''type'', ''start_line'', ''end_line'']" and
    r: "has_columns db ''relationships'' [''type'', ''status'']" and
    e: "has_columns db ''relationship_evidence'' []" and
    ob: "has_columns db ''transactional_outbox'' [''event_type'', ''processed'']"
    by (simp_all add: has_schema_def)
  from assms(2) consider "q \<in> files_statements" | "q \<in> pois_statements"
    | "q \<in> relationships_statements" | "q = Count_rows ''relationship_evidence''"
    | "q \<in> outbox_statements" | "q \<in> poi_data_statements"
    by blast
  then show ?thesis
  proof cases
    case 1
    then show ?thesis using has_columns_engine(1,2) [OF f]
      by (auto simp: files_statements_def)
  next
    case 2
    then show ?thesis using has_columns_engine(1,2,3) [OF p]
      by (auto simp: pois_statements_def)
  next
    case 3
    then show ?thesis using has_columns_engine(1,3,4) [OF r]
      by (auto simp: relationships_statements_def)
  next
    case 4
    then show ?thesis using has_columns_engine(1) [OF e] by simp
  next
    case 5
    then show ?thesis using has_columns_engine(1,3) [OF ob]
      by (auto simp: outbox_statements_def)
  next
    case 6
    then show ?thesis using has_columns_engine(4,5) [OF p]
      by (auto simp: poi_data_statements_def empty_or_null_def)
  qed
qed

lemma schema_run_completes:
  assumes "has_schema db"
  shows "snd (analyze_database db) = Inr ()"
proof -
  have "\<not> isl (engine db q)" if "q \<in> set (executed (fst (analyze_database db)))" for q
    using analyze_database_executed [OF that] section_statements [of db]
    by (intro schema_statements_succeed [OF assms]) blast
  with orderly_success [OF orderly_analyze_database] show ?thesis
    by auto
qed

lemma sample_db_has_schema: "has_schema sample_db"
  by code_simp

end
